theory Spec2Isabelle
  imports Main
begin

section \<open>The agent control plane: authentication, change ledger, task queue\<close>

text \<open>
  A shallow embedding of the API worker's control plane:
  \<^item> \<^verbatim>\<open>apps/api/src/routes/agent.ts\<close>: the HMAC middleware \<^verbatim>\<open>verifyHMAC\<close> and the
    submission routes \<^verbatim>\<open>POST /proposals/content\<close> and \<^verbatim>\<open>POST /flags\<close>;
  \<^item> \<^verbatim>\<open>apps/api/src/routes/admin.ts\<close>: the approval routes and \<^verbatim>\<open>executeAgentChange\<close>;
  \<^item> \<^verbatim>\<open>apps/api/src/jobs/queue.ts\<close>: \<^verbatim>\<open>handleQueueBatch\<close> and \<^verbatim>\<open>processMessage\<close>;
  \<^item> the cron module: \<^verbatim>\<open>processScheduledTasks\<close>.

  Times are whole seconds (\<open>int\<close>). Strings are lists of code units. The database, the
  key-value namespace and the job queue are passed explicitly and returned updated. Their
  operations are taken to succeed, except an insert that leaves a \<^verbatim>\<open>NOT NULL\<close> column of
  the schema without a value; the other exceptions in the model are the ones the
  TypeScript itself raises or lets through from a task handler.
\<close>

subsection \<open>JavaScript primitives used by the middleware\<close>

text \<open>
  \<^verbatim>\<open>parseInt(string)\<close> with no radix: skip leading white space, read an optional sign,
  switch to radix 16 after a \<^verbatim>\<open>0x\<close>/\<^verbatim>\<open>0X\<close> prefix, read the longest run of digits of the
  radix, and return \<^verbatim>\<open>NaN\<close> when that run is empty. \<^verbatim>\<open>NaN\<close> is \<open>None\<close> here. A header
  value is a byte string, so the white space characters that can occur are the ASCII ones
  and the no-break space \<^verbatim>\<open>0xA0\<close>.
\<close>

definition isWhiteSpace :: "char \<Rightarrow> bool" where
  "isWhiteSpace c =
     (c = CHR 0x09 \<or> c = CHR 0x0A \<or> c = CHR 0x0B \<or> c = CHR 0x0C \<or> c = CHR 0x0D
      \<or> c = CHR 0x20 \<or> c = CHR 0xA0)"

definition digitValue :: "char \<Rightarrow> nat option" where
  "digitValue c =
     (let n = (of_char c :: nat) in
      if 48 \<le> n \<and> n \<le> 57 then Some (n - 48)
      else if 97 \<le> n \<and> n \<le> 122 then Some (n - 87)
      else if 65 \<le> n \<and> n \<le> 90 then Some (n - 55)
      else None)"

definition radixDigit :: "nat \<Rightarrow> char \<Rightarrow> nat option" where
  "radixDigit R c =
     (case digitValue c of
        None \<Rightarrow> None
      | Some d \<Rightarrow> if d < R then Some d else None)"

fun readDigits :: "nat \<Rightarrow> nat \<Rightarrow> string \<Rightarrow> nat" where
  "readDigits R acc [] = acc"
| "readDigits R acc (c # cs) =
     (case radixDigit R c of
        None \<Rightarrow> acc
      | Some d \<Rightarrow> readDigits R (acc * R + d) cs)"

fun hasDigit :: "nat \<Rightarrow> string \<Rightarrow> bool" where
  "hasDigit R [] = False"
| "hasDigit R (c # cs) = (radixDigit R c \<noteq> None)"

fun stripSign :: "string \<Rightarrow> bool \<times> string" where
  "stripSign [] = (False, [])"
| "stripSign (c # cs) =
     (if c = CHR ''-'' then (True, cs)
      else if c = CHR ''+'' then (False, cs)
      else (False, c # cs))"

fun stripPrefix :: "string \<Rightarrow> nat \<times> string" where
  "stripPrefix (a # b # cs) =
     (if a = CHR ''0'' \<and> (b = CHR ''x'' \<or> b = CHR ''X'') then (16, cs)
      else (10, a # b # cs))"
| "stripPrefix cs = (10, cs)"

definition parseInt :: "string \<Rightarrow> int option" where
  "parseInt s =
     (case stripSign (dropWhile isWhiteSpace s) of
        (neg, S) \<Rightarrow>
          (case stripPrefix S of
             (R, Z) \<Rightarrow>
               if hasDigit R Z
               then Some ((if neg then - 1 else 1) * int (readDigits R 0 Z))
               else None))"

text \<open>
  \<^verbatim>\<open>Math.abs(now - requestTime) > 300\<close>: any comparison with \<^verbatim>\<open>NaN\<close> is false.
\<close>

definition timestampTooOld :: "int \<Rightarrow> int option \<Rightarrow> bool" where
  "timestampTooOld now requestTime =
     (case requestTime of
        None \<Rightarrow> False
      | Some t \<Rightarrow> \<bar>now - t\<bar> > 300)"

text \<open>
  \<^verbatim>\<open>Buffer.from(s, 'hex')\<close> decodes pairs of hexadecimal digits and stops at the first
  pair that is not one; a trailing single character is dropped.
\<close>

fun hexDecode :: "string \<Rightarrow> nat list" where
  "hexDecode (a # b # cs) =
     (case radixDigit 16 a of
        None \<Rightarrow> []
      | Some x \<Rightarrow>
          (case radixDigit 16 b of
             None \<Rightarrow> []
           | Some y \<Rightarrow> (16 * x + y) # hexDecode cs))"
| "hexDecode cs = []"

text \<open>\<^verbatim>\<open>String.prototype.includes\<close>: the argument occurs as a contiguous substring.\<close>

fun startsWith :: "string \<Rightarrow> string \<Rightarrow> bool" where
  "startsWith s [] = True"
| "startsWith [] (p # ps) = False"
| "startsWith (c # cs) (p # ps) = (c = p \<and> startsWith cs ps)"

fun includes_str :: "string \<Rightarrow> string \<Rightarrow> bool" where
  "includes_str [] sub = startsWith [] sub"
| "includes_str (c # cs) sub = (startsWith (c # cs) sub \<or> includes_str cs sub)"

subsection \<open>Agents and the HMAC middleware\<close>

datatype risk = Low | Medium | High

record agent_config =
  secret :: string
  riskLevel :: risk

text \<open>
  \<^verbatim>\<open>AGENT_CONFIG[agentId]\<close> is a property read on an object literal, so besides the five
  agents it finds what every object inherits from \<^verbatim>\<open>Object.prototype\<close>. Such a value is
  truthy and has no \<^verbatim>\<open>secret\<close> and no \<^verbatim>\<open>riskLevel\<close>.
\<close>

datatype config_lookup = Configured agent_config | Inherited | Undefined

text \<open>
  \<^verbatim>\<open>agentConfig.secret\<close> of an inherited value is \<^verbatim>\<open>undefined\<close>, and \<^verbatim>\<open>c.env[undefined]\<close>
  reads the binding named \<^verbatim>\<open>"undefined"\<close>.
\<close>

fun secretOf :: "config_lookup \<Rightarrow> string" where
  "secretOf (Configured agentConfig) = secret agentConfig"
| "secretOf Inherited = ''undefined''"
| "secretOf Undefined = ''undefined''"

fun riskLevelOf :: "config_lookup \<Rightarrow> risk option" where
  "riskLevelOf (Configured agentConfig) = Some (riskLevel agentConfig)"
| "riskLevelOf Inherited = None"
| "riskLevelOf Undefined = None"

definition objectPrototypeKeys :: "string list" where
  "objectPrototypeKeys =
     [''constructor'', ''toString'', ''toLocaleString'', ''valueOf'', ''hasOwnProperty'',
      ''isPrototypeOf'', ''propertyIsEnumerable'', ''__proto__'', ''__defineGetter__'',
      ''__defineSetter__'', ''__lookupGetter__'', ''__lookupSetter__'']"

definition AGENT_CONFIG :: "string \<Rightarrow> config_lookup" where
  "AGENT_CONFIG agentId =
     (if agentId = ''ContentAgent''
      then Configured \<lparr>secret = ''CONTENTAGENT_API_KEY'', riskLevel = Medium\<rparr>
      else if agentId = ''SEOAgent''
      then Configured \<lparr>secret = ''SEOAGENT_API_KEY'', riskLevel = Low\<rparr>
      else if agentId = ''OpsAgent''
      then Configured \<lparr>secret = ''OPSAGENT_API_KEY'', riskLevel = Low\<rparr>
      else if agentId = ''CommerceAgent''
      then Configured \<lparr>secret = ''COMMERCEAGENT_API_KEY'', riskLevel = High\<rparr>
      else if agentId = ''CommunityAgent''
      then Configured \<lparr>secret = ''COMMUNITYAGENT_API_KEY'', riskLevel = Medium\<rparr>
      else if agentId \<in> set objectPrototypeKeys then Inherited
      else Undefined)"

text \<open>
  The responses of the middleware, in the order the source returns them:
  401 \<^verbatim>\<open>Missing authentication headers\<close>, 401 \<^verbatim>\<open>Request timestamp too old\<close>,
  401 \<^verbatim>\<open>Unknown agent\<close>, 500 \<^verbatim>\<open>Internal configuration error\<close>, 401 \<^verbatim>\<open>Invalid signature\<close>.
\<close>

datatype auth_error =
  MissingCredentials | StaleRequest | UnknownAgent | ConfigurationError | InvalidSignature

record request =
  X_Agent_Id :: "string option"
  X_Timestamp :: "string option"
  X_Signature :: "string option"
  text_body :: string

text \<open>What the middleware stores with \<^verbatim>\<open>c.set\<close> before calling \<^verbatim>\<open>next()\<close>.\<close>

record auth_context =
  agentId :: string
  agentRiskLevel :: "risk option"
  body :: string

text \<open>
  \<open>hmacHex key message\<close> stands for
  \<^verbatim>\<open>createHmac('sha256', key).update(message).digest('hex')\<close> of the platform's crypto
  library; \<open>env\<close> holds the worker's secret bindings by name.
\<close>

definition signedMessage :: "string \<Rightarrow> string \<Rightarrow> string \<Rightarrow> string" where
  "signedMessage a t b = a @ '':'' @ t @ '':'' @ b"

definition checkSignature ::
  "(string \<Rightarrow> string \<Rightarrow> string) \<Rightarrow> string \<Rightarrow> string \<Rightarrow> string \<Rightarrow> string \<Rightarrow> string \<Rightarrow> bool" where
  "checkSignature hmacHex sec a t b sig =
     (let expectedSignature = hmacHex sec (signedMessage a t b);
          providedSig = hexDecode sig;
          expectedSig = hexDecode expectedSignature
      in \<not> (length providedSig \<noteq> length expectedSig \<or> providedSig \<noteq> expectedSig))"

definition verifyHMAC ::
  "(string \<Rightarrow> string \<Rightarrow> string) \<Rightarrow> (string \<Rightarrow> string option) \<Rightarrow> int \<Rightarrow> request
     \<Rightarrow> auth_error + auth_context" where
  "verifyHMAC hmacHex env now req =
     (case (X_Agent_Id req, X_Timestamp req, X_Signature req) of
        (Some a, Some t, Some sig) \<Rightarrow>
          if a = [] \<or> t = [] \<or> sig = [] then Inl MissingCredentials
          else if timestampTooOld now (parseInt t) then Inl StaleRequest
          else
            (case AGENT_CONFIG a of
               Undefined \<Rightarrow> Inl UnknownAgent
             | agentConfig \<Rightarrow>
                 (case env (secretOf agentConfig) of
                    None \<Rightarrow> Inl ConfigurationError
                  | Some sec \<Rightarrow>
                      if sec = [] then Inl ConfigurationError
                      else if \<not> checkSignature hmacHex sec a t (text_body req) sig
                      then Inl InvalidSignature
                      else Inr \<lparr>agentId = a, agentRiskLevel = riskLevelOf agentConfig,
                                body = text_body req\<rparr>))
      | _ \<Rightarrow> Inl MissingCredentials)"

subsection \<open>The persisted state\<close>

text \<open>
  The tables of \<^verbatim>\<open>db/schema.ts\<close> that the control plane touches, each a list of rows in
  the order the database enumerates them. A JSON column holds the JSON text. Field names
  carry the table's initial, since a field name is global.
\<close>

type_synonym json = string

datatype change_status = Pending | Approved | Rejected | Executed

datatype task_status = TPending | TRunning | TCompleted | TFailed

text \<open>
  The two bodies that pass \<^verbatim>\<open>ContentProposalSchema\<close> and \<^verbatim>\<open>FlagChangeSchema\<close>. The
  flag's \<^verbatim>\<open>value\<close> is \<^verbatim>\<open>z.any()\<close>: the key may be missing, and it may be \<^verbatim>\<open>null\<close>.
\<close>

record ContentProposal =
  path :: string
  markdown :: string
  contentReason :: string
  metadata :: "json option"

datatype flag_value = NoValue | NullValue | JsonValue json

record FlagChange =
  flagKey :: string
  flagValue :: flag_value
  ttl :: "int option"
  reason :: string

text \<open>
  \<^verbatim>\<open>JSON.stringify(value)\<close>, the second argument of \<^verbatim>\<open>CONFIG_KV.put\<close>. For a missing
  value it is \<^verbatim>\<open>undefined\<close>, written here as the text \<^verbatim>\<open>undefined\<close>, which is no JSON
  text and so stands for nothing else.
\<close>

fun stringify :: "flag_value \<Rightarrow> string" where
  "stringify NoValue = ''undefined''"
| "stringify NullValue = ''null''"
| "stringify (JsonValue v) = v"

datatype payload = ContentData ContentProposal | FlagData FlagChange

record change =
  c_id :: string
  c_agentId :: string
  c_action :: string
  c_payloadHash :: string
  c_payload :: payload
  c_riskLevel :: risk
  c_status :: change_status
  c_approvedBy :: "string option"
  c_approvedAt :: "int option"
  c_executedAt :: "int option"
  c_error :: "string option"
  c_createdAt :: int

record task =
  t_id :: string
  t_agentId :: string
  t_type :: string
  t_payloadJson :: json
  t_status :: task_status
  t_priority :: int
  t_attempts :: int
  t_maxAttempts :: int
  t_result :: "json option"
  t_error :: "string option"
  t_scheduledFor :: "int option"
  t_startedAt :: "int option"
  t_completedAt :: "int option"
  t_createdAt :: int
  t_updatedAt :: int

record kpi =
  k_id :: string
  k_date :: string
  k_metric :: string
  k_value :: int
  k_metaJson :: json

record flag_row =
  f_id :: string
  f_key :: string
  f_value :: json
  f_changedBy :: string
  f_changeReason :: string
  f_createdAt :: int

text \<open>The body of a queue message, and a delivered message of a batch.\<close>

record QueueMessage =
  m_taskId :: string
  m_agentId :: string
  m_type :: string
  m_payload :: json

record Message =
  msg_id :: string
  msg_body :: QueueMessage

text \<open>
  The bindings the worker reads and writes: the D1 tables, the \<^verbatim>\<open>CONFIG_KV\<close> namespace
  and the messages sent to \<^verbatim>\<open>JOBS_QUEUE\<close>, oldest first. The namespace holds, for each
  key, the text and the optional \<^verbatim>\<open>expirationTtl\<close> of the last \<^verbatim>\<open>put\<close> the worker made
  for it.
\<close>

record state =
  agentChanges :: "change list"
  agentTasks :: "task list"
  kpiSnapshots :: "kpi list"
  featureFlags :: "flag_row list"
  CONFIG_KV :: "string \<Rightarrow> (string \<times> int option) option"
  JOBS_QUEUE :: "QueueMessage list"

subsection \<open>Submission routes of the agent router\<close>

text \<open>
  A route answers 400 \<^verbatim>\<open>Invalid input\<close>, or 200 with \<^verbatim>\<open>id\<close>, \<^verbatim>\<open>status\<close> and
  \<^verbatim>\<open>message\<close>, or fails with an exception of the database (500).
\<close>

datatype response = InvalidInput | Json string string string | InternalError

text \<open>
  \<open>result\<close> is the outcome of \<^verbatim>\<open>Schema.safeParse(JSON.parse(body))\<close>, \<open>None\<close> when it
  fails; \<open>changeId\<close> is the value of \<^verbatim>\<open>nanoid()\<close>, an identifier not yet in the table;
  \<open>payloadHashOf\<close> stands for the salted HMAC of the serialised payload. The row gets the
  schema's defaults for the columns the insert leaves out. A context without a risk level
  (see \<open>Inherited\<close>) cannot fill the \<^verbatim>\<open>NOT NULL\<close> column \<^verbatim>\<open>risk_level\<close>.
\<close>

definition proposals_content ::
  "(payload \<Rightarrow> string) \<Rightarrow> string \<Rightarrow> int \<Rightarrow> auth_context \<Rightarrow> ContentProposal option \<Rightarrow> state
     \<Rightarrow> response \<times> state" where
  "proposals_content payloadHashOf changeId now c result st =
     (case result of
        None \<Rightarrow> (InvalidInput, st)
      | Some data \<Rightarrow>
          (case agentRiskLevel c of
             None \<Rightarrow> (InternalError, st)
           | Some rl \<Rightarrow>
               let st' = st\<lparr>agentChanges := agentChanges st @
                     [\<lparr>c_id = changeId, c_agentId = agentId c, c_action = ''content_proposal'',
                       c_payloadHash = payloadHashOf (ContentData data),
                       c_payload = ContentData data, c_riskLevel = rl,
                       c_status = (if rl = Low then Approved else Pending),
                       c_approvedBy = None, c_approvedAt = None, c_executedAt = None,
                       c_error = None, c_createdAt = now\<rparr>]\<rparr>
               in if rl = Low
                  then (Json changeId ''approved''
                          ''Content proposal auto-approved and PR created'', st')
                  else (Json changeId ''pending''
                          ''Content proposal requires human approval'', st')))"

text \<open>
  \<^verbatim>\<open>POST /flags\<close>. \<open>flagRowId\<close> is the second \<^verbatim>\<open>nanoid()\<close>, for the audit row of
  \<^verbatim>\<open>feature_flags\<close>. A \<^verbatim>\<open>ttl\<close> of 0 is falsy and gives no expiration. On the branch
  that applies the flag, the namespace is written first and the audit row is inserted
  after it; the column \<^verbatim>\<open>feature_flags.value\<close> is \<^verbatim>\<open>NOT NULL\<close>, so for a value that is
  \<^verbatim>\<open>null\<close> or missing the insert throws after the write and the route answers 500.
\<close>

definition isHighRisk :: "FlagChange \<Rightarrow> bool" where
  "isHighRisk data =
     (includes_str (flagKey data) ''production'' \<or> includes_str (flagKey data) ''critical'')"

definition flags ::
  "(payload \<Rightarrow> string) \<Rightarrow> string \<Rightarrow> string \<Rightarrow> int \<Rightarrow> auth_context \<Rightarrow> FlagChange option \<Rightarrow> state
     \<Rightarrow> response \<times> state" where
  "flags payloadHashOf changeId flagRowId now c result st =
     (case result of
        None \<Rightarrow> (InvalidInput, st)
      | Some data \<Rightarrow>
          if isHighRisk data \<and> agentRiskLevel c \<noteq> Some Low
          then (Json changeId ''pending'' ''High-risk flag change requires approval'',
                st\<lparr>agentChanges := agentChanges st @
                     [\<lparr>c_id = changeId, c_agentId = agentId c, c_action = ''flag_change'',
                       c_payloadHash = payloadHashOf (FlagData data),
                       c_payload = FlagData data, c_riskLevel = High, c_status = Pending,
                       c_approvedBy = None, c_approvedAt = None, c_executedAt = None,
                       c_error = None, c_createdAt = now\<rparr>]\<rparr>)
          else
            let st1 = st\<lparr>CONFIG_KV := (CONFIG_KV st)
                       (flagKey data \<mapsto>
                          (stringify (flagValue data),
                           if ttl data = Some 0 then None else ttl data))\<rparr>
            in (case flagValue data of
                  NoValue \<Rightarrow> (InternalError, st1)
                | NullValue \<Rightarrow> (InternalError, st1)
                | JsonValue v \<Rightarrow>
                    (Json changeId ''applied'' ''Flag updated successfully'',
                     st1\<lparr>featureFlags := featureFlags st1 @
                       [\<lparr>f_id = flagRowId, f_key = flagKey data, f_value = v,
                         f_changedBy = agentId c, f_changeReason = reason data,
                         f_createdAt = now\<rparr>]\<rparr>)))"

subsection \<open>Approval routes of the admin router\<close>

text \<open>
  404 \<^verbatim>\<open>Change not found\<close>, 400 \<^verbatim>\<open>Change already processed\<close>, 200 with a message
  and the id, or an exception (500).
\<close>

datatype admin_response = NotFound | AlreadyDecided | Done string string | Failure

definition setChange :: "string \<Rightarrow> (change \<Rightarrow> change) \<Rightarrow> state \<Rightarrow> state" where
  "setChange changeId upd st =
     st\<lparr>agentChanges := map (\<lambda>c. if c_id c = changeId then upd c else c) (agentChanges st)\<rparr>"

text \<open>
  \<^verbatim>\<open>executeAgentChange\<close>: nothing is done for a content proposal (the pull request is a
  TODO), a flag change is written to the namespace without its \<^verbatim>\<open>ttl\<close>, and the change
  is marked executed. A \<^verbatim>\<open>flag_change\<close> row whose payload has no \<^verbatim>\<open>flagKey\<close> makes
  \<^verbatim>\<open>CONFIG_KV.put\<close> throw: \<open>None\<close>.
\<close>

definition executeAgentChange :: "int \<Rightarrow> change \<Rightarrow> state \<Rightarrow> state option" where
  "executeAgentChange now change st =
     (let markExecuted =
            setChange (c_id change) (\<lambda>c. c\<lparr>c_status := Executed, c_executedAt := Some now\<rparr>)
      in if c_action change = ''content_proposal'' then Some (markExecuted st)
         else if c_action change = ''flag_change''
         then (case c_payload change of
                 FlagData data \<Rightarrow>
                   Some (markExecuted
                     (st\<lparr>CONFIG_KV := (CONFIG_KV st)
                          (flagKey data \<mapsto> (stringify (flagValue data), None))\<rparr>))
               | ContentData data \<Rightarrow> None)
         else Some (markExecuted st))"

definition approve :: "int \<Rightarrow> string \<Rightarrow> state \<Rightarrow> admin_response \<times> state" where
  "approve now changeId st =
     (case filter (\<lambda>c. c_id c = changeId) (agentChanges st) of
        [] \<Rightarrow> (NotFound, st)
      | change # rest \<Rightarrow>
          if c_status change \<noteq> Pending then (AlreadyDecided, st)
          else
            let st1 = setChange changeId
                  (\<lambda>c. c\<lparr>c_status := Approved, c_approvedBy := Some ''admin'',
                         c_approvedAt := Some now\<rparr>) st
            in (case executeAgentChange now change st1 of
                  None \<Rightarrow> (Failure, st1)
                | Some st2 \<Rightarrow> (Done ''Change approved and executed'' changeId, st2)))"

text \<open>
  The reject route reads nothing before it writes. \<open>rejectReason\<close> is \<^verbatim>\<open>body.reason\<close>;
  when the body has none, the update leaves the column \<^verbatim>\<open>error\<close> as it is.
\<close>

definition reject :: "int \<Rightarrow> string \<Rightarrow> string option \<Rightarrow> state \<Rightarrow> admin_response \<times> state" where
  "reject now changeId rejectReason st =
     (Done ''Change rejected'' changeId,
      setChange changeId
        (\<lambda>c. c\<lparr>c_status := Rejected, c_approvedBy := Some ''admin'', c_approvedAt := Some now,
               c_error := (case rejectReason of None \<Rightarrow> c_error c | Some r \<Rightarrow> Some r)\<rparr>) st)"

subsection \<open>The queue consumer\<close>

text \<open>
  The six task handlers call the network, the clock and \<^verbatim>\<open>Math.random\<close>, and none of
  them reads the database. What a handler does to the state is all that the consumer sees:
  the rows it inserts into \<^verbatim>\<open>kpi_snapshots\<close>, the \<^verbatim>\<open>result\<close> it stores on the task of
  the message (by \<^verbatim>\<open>message.taskId\<close>, the only write any handler makes to
  \<^verbatim>\<open>agent_tasks\<close>), and the exception it ends with, if any. A run is therefore a value
  supplied for each handler and message.
\<close>

datatype thrown = Error string | NonError

record handler_run =
  kpiRows :: "kpi list"
  taskResult :: "json option"
  thrown :: "thrown option"

record handlers =
  runSEOAuditTask :: "QueueMessage \<Rightarrow> handler_run"
  runContentGenerationTask :: "QueueMessage \<Rightarrow> handler_run"
  captureAnalyticsSnapshotTask :: "QueueMessage \<Rightarrow> handler_run"
  sendEmailTask :: "QueueMessage \<Rightarrow> handler_run"
  syncNewsletterTask :: "QueueMessage \<Rightarrow> handler_run"
  executePlaybookTask :: "QueueMessage \<Rightarrow> handler_run"

definition setTask :: "string \<Rightarrow> (task \<Rightarrow> task) \<Rightarrow> state \<Rightarrow> state" where
  "setTask taskId upd st =
     st\<lparr>agentTasks := map (\<lambda>t. if t_id t = taskId then upd t else t) (agentTasks st)\<rparr>"

text \<open>The \<^verbatim>\<open>switch (message.type)\<close>; \<open>None\<close> is the \<^verbatim>\<open>default\<close> branch, which only logs.\<close>

definition dispatch :: "handlers \<Rightarrow> QueueMessage \<Rightarrow> handler_run option" where
  "dispatch H message =
     (if m_type message = ''seo_audit'' then Some (runSEOAuditTask H message)
      else if m_type message = ''content_generation''
      then Some (runContentGenerationTask H message)
      else if m_type message = ''analytics_snapshot''
      then Some (captureAnalyticsSnapshotTask H message)
      else if m_type message = ''send_email'' then Some (sendEmailTask H message)
      else if m_type message = ''sync_newsletter'' then Some (syncNewsletterTask H message)
      else if m_type message = ''playbook_execution'' then Some (executePlaybookTask H message)
      else None)"

text \<open>The case labels of that \<^verbatim>\<open>switch\<close>: the task types that have a handler.\<close>

definition handlerTypes :: "string list" where
  "handlerTypes =
     [''seo_audit'', ''content_generation'', ''analytics_snapshot'', ''send_email'',
      ''sync_newsletter'', ''playbook_execution'']"

definition applyRun :: "string \<Rightarrow> handler_run \<Rightarrow> state \<Rightarrow> state" where
  "applyRun taskId r st =
     (let st1 = st\<lparr>kpiSnapshots := kpiSnapshots st @ kpiRows r\<rparr>
      in case taskResult r of
           None \<Rightarrow> st1
         | Some res \<Rightarrow> setTask taskId (\<lambda>t. t\<lparr>t_result := Some res\<rparr>) st1)"

text \<open>
  \<^verbatim>\<open>processMessage\<close> returns the exception it lets through, if any, with the state
  reached. One reading \<open>now\<close> of the clock serves a whole batch.
\<close>

definition processMessage ::
  "handlers \<Rightarrow> int \<Rightarrow> QueueMessage \<Rightarrow> state \<Rightarrow> thrown option \<times> state" where
  "processMessage H now message st =
     (let st1 = setTask (m_taskId message)
                  (\<lambda>t. t\<lparr>t_status := TRunning, t_startedAt := Some now\<rparr>) st;
          completed = setTask (m_taskId message)
                  (\<lambda>t. t\<lparr>t_status := TCompleted, t_completedAt := Some now\<rparr>)
      in case dispatch H message of
           None \<Rightarrow> (None, completed st1)
         | Some r \<Rightarrow>
             (case thrown r of
                Some e \<Rightarrow> (Some e, applyRun (m_taskId message) r st1)
              | None \<Rightarrow> (None, completed (applyRun (m_taskId message) r st1))))"

text \<open>\<^verbatim>\<open>error instanceof Error ? error.message : 'Unknown error'\<close>\<close>

fun errorMessage :: "thrown \<Rightarrow> string" where
  "errorMessage (Error msg) = msg"
| "errorMessage NonError = ''Unknown error''"

text \<open>
  What the consumer tells the delivery channel about a message: \<^verbatim>\<open>message.ack()\<close> or
  \<^verbatim>\<open>message.retry()\<close>. \<^verbatim>\<open>handleQueueBatch\<close> returns the state and, for each message of
  the batch in order, its id with the call made.
\<close>

datatype disposition = Ack | Retry

fun handleQueueBatch ::
  "handlers \<Rightarrow> int \<Rightarrow> Message list \<Rightarrow> state \<Rightarrow> state \<times> (string \<times> disposition) list" where
  "handleQueueBatch H now [] st = (st, [])"
| "handleQueueBatch H now (message # messages) st =
     (case processMessage H now (msg_body message) st of
        (None, st1) \<Rightarrow>
          (case handleQueueBatch H now messages st1 of
             (st', calls) \<Rightarrow> (st', (msg_id message, Ack) # calls))
      | (Some error, st1) \<Rightarrow>
          (let st2 = (if m_taskId (msg_body message) \<noteq> []
                      then setTask (m_taskId (msg_body message))
                             (\<lambda>t. t\<lparr>t_status := TFailed, t_error := Some (errorMessage error),
                                    t_completedAt := Some now\<rparr>) st1
                      else st1)
           in case handleQueueBatch H now messages st2 of
                (st', calls) \<Rightarrow> (st', (msg_id message, Retry) # calls)))"

subsection \<open>The scheduled task sweep\<close>

text \<open>
  The query of \<^verbatim>\<open>processScheduledTasks\<close> has a \<^verbatim>\<open>where\<close> and a \<^verbatim>\<open>limit(10)\<close> and no
  \<^verbatim>\<open>orderBy\<close>: it returns the first ten matching rows in the order the database
  enumerates the table. A \<^verbatim>\<open>NULL\<close> \<^verbatim>\<open>scheduled_for\<close> never satisfies \<^verbatim>\<open>lte\<close>.
\<close>

definition isDue :: "int \<Rightarrow> task \<Rightarrow> bool" where
  "isDue now t =
     (t_status t = TPending \<and>
      (case t_scheduledFor t of None \<Rightarrow> False | Some s \<Rightarrow> s \<le> now))"

definition selectScheduledTasks :: "int \<Rightarrow> state \<Rightarrow> task list" where
  "selectScheduledTasks now st = take 10 (filter (isDue now) (agentTasks st))"

definition queueMessageOf :: "task \<Rightarrow> QueueMessage" where
  "queueMessageOf t =
     \<lparr>m_taskId = t_id t, m_agentId = t_agentId t, m_type = t_type t,
      m_payload = t_payloadJson t\<rparr>"

definition sendAndStart :: "int \<Rightarrow> task \<Rightarrow> state \<Rightarrow> state" where
  "sendAndStart now t st =
     setTask (t_id t) (\<lambda>r. r\<lparr>t_status := TRunning, t_startedAt := Some now\<rparr>)
       (st\<lparr>JOBS_QUEUE := JOBS_QUEUE st @ [queueMessageOf t]\<rparr>)"

definition processScheduledTasks :: "int \<Rightarrow> state \<Rightarrow> state" where
  "processScheduledTasks now st = fold (sendAndStart now) (selectScheduledTasks now st) st"

subsection \<open>Sample values\<close>

text \<open>
  Concrete states, tasks, messages and handlers on which the properties below are
  evaluated: an empty store, a change that has been approved and executed, a pending task
  of the schema's default \<^verbatim>\<open>max_attempts\<close> 3, a delivered message for it, and handlers
  that all fail the way \<^verbatim>\<open>sendEmailTask\<close> does on a bad gateway.
\<close>

definition emptyState :: state where
  "emptyState =
     \<lparr>agentChanges = [], agentTasks = [], kpiSnapshots = [], featureFlags = [],
      CONFIG_KV = (\<lambda>k. None), JOBS_QUEUE = []\<rparr>"

definition executedChange :: change where
  "executedChange =
     \<lparr>c_id = ''c1'', c_agentId = ''CommerceAgent'', c_action = ''flag_change'',
      c_payloadHash = ''h'',
      c_payload = FlagData \<lparr>flagKey = ''production.maintenance_mode'', flagValue = JsonValue ''true'',
         ttl = None, reason = ''maintenance''\<rparr>,
      c_riskLevel = High, c_status = Executed, c_approvedBy = Some ''admin'',
      c_approvedAt = Some 1700000000, c_executedAt = Some 1700000000, c_error = None,
      c_createdAt = 1699999000\<rparr>"

definition sampleTask :: "string \<Rightarrow> string \<Rightarrow> int \<Rightarrow> int option \<Rightarrow> task" where
  "sampleTask taskId type attempts scheduledFor =
     \<lparr>t_id = taskId, t_agentId = ''OpsAgent'', t_type = type, t_payloadJson = ''{}'',
      t_status = TPending, t_priority = 5, t_attempts = attempts, t_maxAttempts = 3,
      t_result = None, t_error = None, t_scheduledFor = scheduledFor, t_startedAt = None,
      t_completedAt = None, t_createdAt = 1699999000, t_updatedAt = 1699999000\<rparr>"

definition sampleMessage :: "string \<Rightarrow> string \<Rightarrow> string \<Rightarrow> Message" where
  "sampleMessage messageId taskId type =
     \<lparr>msg_id = messageId,
      msg_body = \<lparr>m_taskId = taskId, m_agentId = ''OpsAgent'', m_type = type,
                  m_payload = ''{}''\<rparr>\<rparr>"

definition failingRun :: "QueueMessage \<Rightarrow> handler_run" where
  "failingRun message =
     \<lparr>kpiRows = [], taskResult = None,
      thrown = Some (Error ''Email send failed: Bad Gateway'')\<rparr>"

definition failingHandlers :: handlers where
  "failingHandlers =
     \<lparr>runSEOAuditTask = failingRun, runContentGenerationTask = failingRun,
      captureAnalyticsSnapshotTask = failingRun, sendEmailTask = failingRun,
      syncNewsletterTask = failingRun, executePlaybookTask = failingRun\<rparr>"

section \<open>Properties\<close>

subsection \<open>The replay window of the middleware\<close>

text \<open>With the three headers present, the middleware is the window check and what follows it.\<close>

lemma verifyHMAC_present:
  assumes "X_Agent_Id req = Some a" "a \<noteq> []" "X_Timestamp req = Some t" "t \<noteq> []"
    "X_Signature req = Some sig" "sig \<noteq> []"
  shows "verifyHMAC hmacHex env now req =
     (if timestampTooOld now (parseInt t) then Inl StaleRequest
      else
        (case AGENT_CONFIG a of
           Undefined \<Rightarrow> Inl UnknownAgent
         | agentConfig \<Rightarrow>
             (case env (secretOf agentConfig) of
                None \<Rightarrow> Inl ConfigurationError
              | Some sec \<Rightarrow>
                  if sec = [] then Inl ConfigurationError
                  else if \<not> checkSignature hmacHex sec a t (text_body req) sig
                  then Inl InvalidSignature
                  else Inr \<lparr>agentId = a, agentRiskLevel = riskLevelOf agentConfig,
                            body = text_body req\<rparr>)))"
  using assms by (simp add: verifyHMAC_def)

lemma lookup_and_signature_not_stale:
  "(case AGENT_CONFIG a of
      Undefined \<Rightarrow> Inl UnknownAgent
    | agentConfig \<Rightarrow>
        (case env (secretOf agentConfig) of
           None \<Rightarrow> Inl ConfigurationError
         | Some sec \<Rightarrow>
             if sec = [] then Inl ConfigurationError
             else if \<not> checkSignature hmacHex sec a t b sig
             then Inl InvalidSignature
             else Inr \<lparr>agentId = a, agentRiskLevel = riskLevelOf agentConfig, body = b\<rparr>))
   \<noteq> Inl StaleRequest"
  by (simp split: config_lookup.split option.split)

lemma parseInt_Some_nonempty: "parseInt t = Some ts \<Longrightarrow> t \<noteq> []"
  by (auto simp: parseInt_def)

lemma parseInt_1700000000: "parseInt ''1700000000'' = Some 1700000000"
  by (simp add: parseInt_def isWhiteSpace_def radixDigit_def digitValue_def)

lemma parseInt_abc: "parseInt ''abc'' = None"
  by (simp add: parseInt_def isWhiteSpace_def radixDigit_def digitValue_def)

text \<open>
  C6. The window check is inclusive at its boundary: a request whose timestamp is exactly
  300 seconds from the server's clock, in either direction, is not rejected as stale,
  and one that is 301 seconds away is answered \<^verbatim>\<open>Request timestamp too old\<close>.
\<close>

theorem timestamp_window_boundary:
  assumes "X_Agent_Id req = Some a" "a \<noteq> []" "X_Timestamp req = Some t"
    "X_Signature req = Some sig" "sig \<noteq> []" "parseInt t = Some ts"
  shows "(\<bar>now - ts\<bar> = 300 \<longrightarrow> verifyHMAC hmacHex env now req \<noteq> Inl StaleRequest) \<and>
         (\<bar>now - ts\<bar> = 301 \<longrightarrow> verifyHMAC hmacHex env now req = Inl StaleRequest)"
proof -
  have t: "t \<noteq> []" using assms(6) by (rule parseInt_Some_nonempty)
  note v = verifyHMAC_present [OF assms(1,2,3) t assms(4,5)]
  show ?thesis
    using assms(6) by (simp add: v timestampTooOld_def lookup_and_signature_not_stale)
qed

theorem timestamp_window_boundary_witness:
  "verifyHMAC (\<lambda>k m. ''ab'') [''CONTENTAGENT_API_KEY'' \<mapsto> ''k''] 1700000300
      \<lparr>X_Agent_Id = Some ''ContentAgent'', X_Timestamp = Some ''1700000000'',
       X_Signature = Some ''ab'', text_body = ''{}''\<rparr> \<noteq> Inl StaleRequest \<and>
   verifyHMAC (\<lambda>k m. ''ab'') [''CONTENTAGENT_API_KEY'' \<mapsto> ''k''] 1699999699
      \<lparr>X_Agent_Id = Some ''ContentAgent'', X_Timestamp = Some ''1700000000'',
       X_Signature = Some ''ab'', text_body = ''{}''\<rparr> = Inl StaleRequest"
  using
    timestamp_window_boundary [where a = "''ContentAgent''" and t = "''1700000000''" and
      sig = "''ab''" and ts = 1700000000 and now = 1700000300 and
      req = "\<lparr>X_Agent_Id = Some ''ContentAgent'', X_Timestamp = Some ''1700000000'',
              X_Signature = Some ''ab'', text_body = ''{}''\<rparr>" and
      hmacHex = "\<lambda>k m. ''ab''" and env = "[''CONTENTAGENT_API_KEY'' \<mapsto> ''k'']"]
    timestamp_window_boundary [where a = "''ContentAgent''" and t = "''1700000000''" and
      sig = "''ab''" and ts = 1700000000 and now = 1699999699 and
      req = "\<lparr>X_Agent_Id = Some ''ContentAgent'', X_Timestamp = Some ''1700000000'',
              X_Signature = Some ''ab'', text_body = ''{}''\<rparr>" and
      hmacHex = "\<lambda>k m. ''ab''" and env = "[''CONTENTAGENT_API_KEY'' \<mapsto> ''k'']"]
    parseInt_1700000000
  by simp

text \<open>
  C9. A timestamp header that is present and does not parse as a number is never rejected
  by the window check, whatever the server's clock says: the answer is the one that agent
  lookup and signature verification give.
\<close>

theorem nan_timestamp_bypasses_window:
  assumes "X_Agent_Id req = Some a" "a \<noteq> []" "X_Timestamp req = Some t" "t \<noteq> []"
    "X_Signature req = Some sig" "sig \<noteq> []" "parseInt t = None"
  shows "verifyHMAC hmacHex env now req \<noteq> Inl StaleRequest \<and>
         verifyHMAC hmacHex env now req =
           (case AGENT_CONFIG a of
              Undefined \<Rightarrow> Inl UnknownAgent
            | agentConfig \<Rightarrow>
                (case env (secretOf agentConfig) of
                   None \<Rightarrow> Inl ConfigurationError
                 | Some sec \<Rightarrow>
                     if sec = [] then Inl ConfigurationError
                     else if \<not> checkSignature hmacHex sec a t (text_body req) sig
                     then Inl InvalidSignature
                     else Inr \<lparr>agentId = a, agentRiskLevel = riskLevelOf agentConfig,
                               body = text_body req\<rparr>))"
proof -
  note v = verifyHMAC_present [OF assms(1-6)]
  have "\<not> timestampTooOld now (parseInt t)"
    using assms(7) by (simp add: timestampTooOld_def)
  then show ?thesis
    by (simp add: v lookup_and_signature_not_stale)
qed

theorem nan_timestamp_bypasses_window_witness:
  "parseInt ''abc'' = None \<and>
   verifyHMAC (\<lambda>k m. ''ab'') [''CONTENTAGENT_API_KEY'' \<mapsto> ''k''] 1700000000
      \<lparr>X_Agent_Id = Some ''ContentAgent'', X_Timestamp = Some ''abc'',
       X_Signature = Some ''ab'', text_body = ''{}''\<rparr> =
     Inr \<lparr>agentId = ''ContentAgent'', agentRiskLevel = Some Medium, body = ''{}''\<rparr>"
  using
    nan_timestamp_bypasses_window [where a = "''ContentAgent''" and t = "''abc''" and
      sig = "''ab''" and now = 1700000000 and
      req = "\<lparr>X_Agent_Id = Some ''ContentAgent'', X_Timestamp = Some ''abc'',
              X_Signature = Some ''ab'', text_body = ''{}''\<rparr>" and
      hmacHex = "\<lambda>k m. ''ab''" and env = "[''CONTENTAGENT_API_KEY'' \<mapsto> ''k'']"]
    parseInt_abc
  by (simp add: AGENT_CONFIG_def checkSignature_def radixDigit_def digitValue_def)

subsection \<open>Submission: what is gated and what is applied\<close>

text \<open>
  C1 as stated fails: not every submission from an agent above low risk waits for a human.
  \<^verbatim>\<open>ContentAgent\<close> is a medium-risk agent; its flag change for the key
  \<^verbatim>\<open>beta.banner\<close> is written to the flag store within the submission call and answered
  \<^verbatim>\<open>applied\<close>, and no change is recorded for review.
\<close>

theorem medium_agent_flag_applied_at_submission:
  "riskLevelOf (AGENT_CONFIG ''ContentAgent'') = Some Medium \<and>
   fst (flags (\<lambda>p. ''h'') ''c1'' ''f1'' 1700000000
      \<lparr>agentId = ''ContentAgent'', agentRiskLevel = Some Medium, body = ''''\<rparr>
      (Some \<lparr>flagKey = ''beta.banner'', flagValue = JsonValue ''true'', ttl = None, reason = ''launch''\<rparr>)
      emptyState) = Json ''c1'' ''applied'' ''Flag updated successfully'' \<and>
   CONFIG_KV (snd (flags (\<lambda>p. ''h'') ''c1'' ''f1'' 1700000000
      \<lparr>agentId = ''ContentAgent'', agentRiskLevel = Some Medium, body = ''''\<rparr>
      (Some \<lparr>flagKey = ''beta.banner'', flagValue = JsonValue ''true'', ttl = None, reason = ''launch''\<rparr>)
      emptyState)) ''beta.banner'' = Some (''true'', None) \<and>
   agentChanges (snd (flags (\<lambda>p. ''h'') ''c1'' ''f1'' 1700000000
      \<lparr>agentId = ''ContentAgent'', agentRiskLevel = Some Medium, body = ''''\<rparr>
      (Some \<lparr>flagKey = ''beta.banner'', flagValue = JsonValue ''true'', ttl = None, reason = ''launch''\<rparr>)
      emptyState)) = []"
  by (simp add: flags_def isHighRisk_def emptyState_def AGENT_CONFIG_def)

text \<open>
  C1, amended. For an agent whose risk level is not low: a content proposal is recorded
  with status pending and the call changes nothing but the change table; a flag change
  whose key contains \<^verbatim>\<open>production\<close> or \<^verbatim>\<open>critical\<close> is recorded with risk level high
  and status pending, and the call changes nothing but the change table; a flag change
  from such an agent with any other key is not held for review: no change is recorded,
  and the route makes its \<^verbatim>\<open>put\<close> to the flag store within the submission call.
\<close>

theorem gated_submission_stays_pending:
  assumes "agentRiskLevel c = Some rl" "rl \<noteq> Low"
  shows "proposals_content payloadHashOf changeId now c (Some data) st =
           (Json changeId ''pending'' ''Content proposal requires human approval'',
            st\<lparr>agentChanges := agentChanges st @
               [\<lparr>c_id = changeId, c_agentId = agentId c, c_action = ''content_proposal'',
                 c_payloadHash = payloadHashOf (ContentData data),
                 c_payload = ContentData data, c_riskLevel = rl, c_status = Pending,
                 c_approvedBy = None, c_approvedAt = None, c_executedAt = None,
                 c_error = None, c_createdAt = now\<rparr>]\<rparr>) \<and>
         (isHighRisk fdata \<longrightarrow>
            flags payloadHashOf changeId flagRowId now c (Some fdata) st =
              (Json changeId ''pending'' ''High-risk flag change requires approval'',
               st\<lparr>agentChanges := agentChanges st @
                  [\<lparr>c_id = changeId, c_agentId = agentId c, c_action = ''flag_change'',
                    c_payloadHash = payloadHashOf (FlagData fdata),
                    c_payload = FlagData fdata, c_riskLevel = High, c_status = Pending,
                    c_approvedBy = None, c_approvedAt = None, c_executedAt = None,
                    c_error = None, c_createdAt = now\<rparr>]\<rparr>)) \<and>
         (\<not> isHighRisk fdata \<longrightarrow>
            agentChanges (snd (flags payloadHashOf changeId flagRowId now c (Some fdata) st)) =
              agentChanges st \<and>
            CONFIG_KV (snd (flags payloadHashOf changeId flagRowId now c (Some fdata) st))
              (flagKey fdata) =
              Some (stringify (flagValue fdata),
                    if ttl fdata = Some 0 then None else ttl fdata))"
proof -
  have content: "proposals_content payloadHashOf changeId now c (Some data) st =
           (Json changeId ''pending'' ''Content proposal requires human approval'',
            st\<lparr>agentChanges := agentChanges st @
               [\<lparr>c_id = changeId, c_agentId = agentId c, c_action = ''content_proposal'',
                 c_payloadHash = payloadHashOf (ContentData data),
                 c_payload = ContentData data, c_riskLevel = rl, c_status = Pending,
                 c_approvedBy = None, c_approvedAt = None, c_executedAt = None,
                 c_error = None, c_createdAt = now\<rparr>]\<rparr>)"
    using assms by (simp add: proposals_content_def)
  have gated: "isHighRisk fdata \<longrightarrow>
            flags payloadHashOf changeId flagRowId now c (Some fdata) st =
              (Json changeId ''pending'' ''High-risk flag change requires approval'',
               st\<lparr>agentChanges := agentChanges st @
                  [\<lparr>c_id = changeId, c_agentId = agentId c, c_action = ''flag_change'',
                    c_payloadHash = payloadHashOf (FlagData fdata),
                    c_payload = FlagData fdata, c_riskLevel = High, c_status = Pending,
                    c_approvedBy = None, c_approvedAt = None, c_executedAt = None,
                    c_error = None, c_createdAt = now\<rparr>]\<rparr>)"
    using assms by (simp add: flags_def)
  have applied: "\<not> isHighRisk fdata \<longrightarrow>
            agentChanges (snd (flags payloadHashOf changeId flagRowId now c (Some fdata) st)) =
              agentChanges st \<and>
            CONFIG_KV (snd (flags payloadHashOf changeId flagRowId now c (Some fdata) st))
              (flagKey fdata) =
              Some (stringify (flagValue fdata),
                    if ttl fdata = Some 0 then None else ttl fdata)"
    by (cases "flagValue fdata") (simp_all add: flags_def)
  show ?thesis
    by (intro conjI) (rule content gated applied)+
qed

theorem gated_submission_stays_pending_witness:
  "snd (proposals_content (\<lambda>p. ''h'') ''c1'' 1700000000
      \<lparr>agentId = ''ContentAgent'', agentRiskLevel = Some Medium, body = ''''\<rparr>
      (Some \<lparr>path = ''blog/post.md'', markdown = ''# Post'', contentReason = ''new post'',
             metadata = None\<rparr>) emptyState) =
     emptyState\<lparr>agentChanges :=
       [\<lparr>c_id = ''c1'', c_agentId = ''ContentAgent'', c_action = ''content_proposal'',
         c_payloadHash = ''h'',
         c_payload = ContentData \<lparr>path = ''blog/post.md'', markdown = ''# Post'',
            contentReason = ''new post'', metadata = None\<rparr>,
         c_riskLevel = Medium, c_status = Pending,
         c_approvedBy = None, c_approvedAt = None, c_executedAt = None,
         c_error = None, c_createdAt = 1700000000\<rparr>]\<rparr> \<and>
   fst (flags (\<lambda>p. ''h'') ''c2'' ''f2'' 1700000000
      \<lparr>agentId = ''ContentAgent'', agentRiskLevel = Some Medium, body = ''''\<rparr>
      (Some \<lparr>flagKey = ''prod.critical.flag'', flagValue = JsonValue ''true'', ttl = None,
             reason = ''launch''\<rparr>) emptyState) =
     Json ''c2'' ''pending'' ''High-risk flag change requires approval'' \<and>
   agentChanges (snd (flags (\<lambda>p. ''h'') ''c3'' ''f3'' 1700000000
      \<lparr>agentId = ''ContentAgent'', agentRiskLevel = Some Medium, body = ''''\<rparr>
      (Some \<lparr>flagKey = ''beta.banner'', flagValue = NullValue, ttl = Some 3600,
             reason = ''launch''\<rparr>) emptyState)) = [] \<and>
   CONFIG_KV (snd (flags (\<lambda>p. ''h'') ''c3'' ''f3'' 1700000000
      \<lparr>agentId = ''ContentAgent'', agentRiskLevel = Some Medium, body = ''''\<rparr>
      (Some \<lparr>flagKey = ''beta.banner'', flagValue = NullValue, ttl = Some 3600,
             reason = ''launch''\<rparr>) emptyState)) ''beta.banner'' = Some (''null'', Some 3600)"
proof -
  have r: "agentRiskLevel
             \<lparr>agentId = ''ContentAgent'', agentRiskLevel = Some Medium, body = ''''\<rparr> =
           Some Medium"
    by simp
  have m: "Medium \<noteq> Low"
    by simp
  have s: "isHighRisk \<lparr>flagKey = ''prod.critical.flag'', flagValue = JsonValue ''true'',
             ttl = None, reason = ''launch''\<rparr>"
    by (simp add: isHighRisk_def)
  have n: "\<not> isHighRisk \<lparr>flagKey = ''beta.banner'', flagValue = NullValue,
             ttl = Some 3600, reason = ''launch''\<rparr>"
    by (simp add: isHighRisk_def)
  note content =
    gated_submission_stays_pending [OF r m, where payloadHashOf = "\<lambda>p. ''h''" and
      changeId = "''c1''" and now = 1700000000 and st = emptyState and
      data = "\<lparr>path = ''blog/post.md'', markdown = ''# Post'', contentReason = ''new post'',
             metadata = None\<rparr>", THEN conjunct1]
  note gated =
    gated_submission_stays_pending [OF r m, where payloadHashOf = "\<lambda>p. ''h''" and
      changeId = "''c2''" and flagRowId = "''f2''" and now = 1700000000 and
      st = emptyState and
      fdata = "\<lparr>flagKey = ''prod.critical.flag'', flagValue = JsonValue ''true'',
             ttl = None, reason = ''launch''\<rparr>", THEN conjunct2, THEN conjunct1,
      THEN mp, OF s]
  note applied =
    gated_submission_stays_pending [OF r m, where payloadHashOf = "\<lambda>p. ''h''" and
      changeId = "''c3''" and flagRowId = "''f3''" and now = 1700000000 and
      st = emptyState and
      fdata = "\<lparr>flagKey = ''beta.banner'', flagValue = NullValue,
             ttl = Some 3600, reason = ''launch''\<rparr>", THEN conjunct2, THEN conjunct2,
      THEN mp, OF n]
  show ?thesis
    using content gated applied by (simp add: emptyState_def)
qed

text \<open>
  C4 as stated fails for the low-risk agents: the escalation is guarded by the agent's
  class. \<^verbatim>\<open>SEOAgent\<close> is low-risk; its flag change for the sensitive key
  \<^verbatim>\<open>production.maintenance_mode\<close> is written to the flag store at once, with an audit
  row in \<^verbatim>\<open>feature_flags\<close>, and no change is recorded at all.
\<close>

theorem low_agent_sensitive_flag_applied:
  "riskLevelOf (AGENT_CONFIG ''SEOAgent'') = Some Low \<and>
   isHighRisk \<lparr>flagKey = ''production.maintenance_mode'', flagValue = JsonValue ''true'', ttl = None,
      reason = ''maintenance''\<rparr> \<and>
   flags (\<lambda>p. ''h'') ''c1'' ''f1'' 1700000000
      \<lparr>agentId = ''SEOAgent'', agentRiskLevel = Some Low, body = ''''\<rparr>
      (Some \<lparr>flagKey = ''production.maintenance_mode'', flagValue = JsonValue ''true'', ttl = None,
         reason = ''maintenance''\<rparr>) emptyState =
     (Json ''c1'' ''applied'' ''Flag updated successfully'',
      emptyState\<lparr>
        CONFIG_KV := [''production.maintenance_mode'' \<mapsto> (''true'', None)],
        featureFlags := [\<lparr>f_id = ''f1'', f_key = ''production.maintenance_mode'',
           f_value = ''true'', f_changedBy = ''SEOAgent'', f_changeReason = ''maintenance'',
           f_createdAt = 1700000000\<rparr>]\<rparr>) \<and>
   agentChanges (snd (flags (\<lambda>p. ''h'') ''c1'' ''f1'' 1700000000
      \<lparr>agentId = ''SEOAgent'', agentRiskLevel = Some Low, body = ''''\<rparr>
      (Some \<lparr>flagKey = ''production.maintenance_mode'', flagValue = JsonValue ''true'', ttl = None,
         reason = ''maintenance''\<rparr>) emptyState)) = []"
  by (simp add: flags_def isHighRisk_def emptyState_def AGENT_CONFIG_def)

text \<open>
  C4, amended. A flag change whose key contains \<^verbatim>\<open>production\<close> or \<^verbatim>\<open>critical\<close>,
  submitted by an agent whose static risk class is not low, is recorded as a change with
  risk level high and status pending, whatever that class is.
\<close>

theorem sensitive_flag_from_gated_agent:
  assumes "isHighRisk data" "agentRiskLevel c \<noteq> Some Low"
  shows "flags payloadHashOf changeId flagRowId now c (Some data) st =
           (Json changeId ''pending'' ''High-risk flag change requires approval'',
            st\<lparr>agentChanges := agentChanges st @
               [\<lparr>c_id = changeId, c_agentId = agentId c, c_action = ''flag_change'',
                 c_payloadHash = payloadHashOf (FlagData data),
                 c_payload = FlagData data, c_riskLevel = High, c_status = Pending,
                 c_approvedBy = None, c_approvedAt = None, c_executedAt = None,
                 c_error = None, c_createdAt = now\<rparr>]\<rparr>) \<and>
         c_riskLevel (last (agentChanges
            (snd (flags payloadHashOf changeId flagRowId now c (Some data) st)))) = High \<and>
         c_status (last (agentChanges
            (snd (flags payloadHashOf changeId flagRowId now c (Some data) st)))) = Pending"
  using assms by (simp add: flags_def)

theorem sensitive_flag_from_gated_agent_witness:
  "map c_riskLevel (agentChanges (snd (flags (\<lambda>p. ''h'') ''c1'' ''f1'' 1700000000
      \<lparr>agentId = ''ContentAgent'', agentRiskLevel = Some Medium, body = ''''\<rparr>
      (Some \<lparr>flagKey = ''prod.critical.flag'', flagValue = JsonValue ''true'', ttl = None,
             reason = ''launch''\<rparr>) emptyState))) = [High] \<and>
   map c_status (agentChanges (snd (flags (\<lambda>p. ''h'') ''c1'' ''f1'' 1700000000
      \<lparr>agentId = ''ContentAgent'', agentRiskLevel = Some Medium, body = ''''\<rparr>
      (Some \<lparr>flagKey = ''prod.critical.flag'', flagValue = JsonValue ''true'', ttl = None,
             reason = ''launch''\<rparr>) emptyState))) = [Pending] \<and>
   CONFIG_KV (snd (flags (\<lambda>p. ''h'') ''c1'' ''f1'' 1700000000
      \<lparr>agentId = ''ContentAgent'', agentRiskLevel = Some Medium, body = ''''\<rparr>
      (Some \<lparr>flagKey = ''prod.critical.flag'', flagValue = JsonValue ''true'', ttl = None,
             reason = ''launch''\<rparr>) emptyState)) ''prod.critical.flag'' = None"
proof -
  have s: "isHighRisk \<lparr>flagKey = ''prod.critical.flag'', flagValue = JsonValue ''true'', ttl = None,
             reason = ''launch''\<rparr>"
    by (simp add: isHighRisk_def)
  have r: "agentRiskLevel
             \<lparr>agentId = ''ContentAgent'', agentRiskLevel = Some Medium, body = ''''\<rparr>
           \<noteq> Some Low"
    by simp
  show ?thesis
    using sensitive_flag_from_gated_agent [OF s r, where payloadHashOf = "\<lambda>p. ''h''" and
       changeId = "''c1''" and flagRowId = "''f1''" and now = 1700000000 and st = emptyState]
    by (simp add: emptyState_def)
qed

text \<open>
  C5 does not hold of the content route. \<^verbatim>\<open>SEOAgent\<close> is low-risk; its content proposal
  is answered \<^verbatim>\<open>Content proposal auto-approved and PR created\<close>, but the call only
  inserts the change with status approved: no executor runs, the change is not moved to
  executed, and no error is recorded. On the approval route the same kind of change, once
  approved, is passed to \<^verbatim>\<open>executeAgentChange\<close> and ends executed.
\<close>

theorem low_agent_content_left_approved:
  "riskLevelOf (AGENT_CONFIG ''SEOAgent'') = Some Low \<and>
   proposals_content (\<lambda>p. ''h'') ''c1'' 1700000000
      \<lparr>agentId = ''SEOAgent'', agentRiskLevel = Some Low, body = ''''\<rparr>
      (Some \<lparr>path = ''blog/post.md'', markdown = ''# Post'', contentReason = ''new post'',
             metadata = None\<rparr>) emptyState =
     (Json ''c1'' ''approved'' ''Content proposal auto-approved and PR created'',
      emptyState\<lparr>agentChanges :=
        [\<lparr>c_id = ''c1'', c_agentId = ''SEOAgent'', c_action = ''content_proposal'',
          c_payloadHash = ''h'',
          c_payload = ContentData \<lparr>path = ''blog/post.md'', markdown = ''# Post'',
             contentReason = ''new post'', metadata = None\<rparr>,
          c_riskLevel = Low, c_status = Approved,
          c_approvedBy = None, c_approvedAt = None, c_executedAt = None,
          c_error = None, c_createdAt = 1700000000\<rparr>]\<rparr>) \<and>
   approve 1700000900 ''c2''
      (snd (proposals_content (\<lambda>p. ''h'') ''c2'' 1700000000
         \<lparr>agentId = ''ContentAgent'', agentRiskLevel = Some Medium, body = ''''\<rparr>
         (Some \<lparr>path = ''blog/post.md'', markdown = ''# Post'', contentReason = ''new post'',
                metadata = None\<rparr>) emptyState)) =
     (Done ''Change approved and executed'' ''c2'',
      emptyState\<lparr>agentChanges :=
        [\<lparr>c_id = ''c2'', c_agentId = ''ContentAgent'', c_action = ''content_proposal'',
          c_payloadHash = ''h'',
          c_payload = ContentData \<lparr>path = ''blog/post.md'', markdown = ''# Post'',
             contentReason = ''new post'', metadata = None\<rparr>,
          c_riskLevel = Medium, c_status = Executed,
          c_approvedBy = Some ''admin'', c_approvedAt = Some 1700000900,
          c_executedAt = Some 1700000900, c_error = None, c_createdAt = 1700000000\<rparr>]\<rparr>)"
  by (simp add: proposals_content_def approve_def executeAgentChange_def setChange_def
      emptyState_def AGENT_CONFIG_def)

subsection \<open>Decisions: the guards of approve and their absence in reject\<close>

lemma map_if_absent:
  "k \<notin> f ` set xs \<Longrightarrow> map (\<lambda>x. if f x = k then upd x else x) xs = xs"
  by (induction xs) auto

lemma setChange_absent:
  "changeId \<notin> c_id ` set (agentChanges st) \<Longrightarrow> setChange changeId upd st = st"
  by (simp add: setChange_def map_if_absent)

text \<open>The approve route has both guards, and neither writes.\<close>

lemma approve_unknown:
  assumes "changeId \<notin> c_id ` set (agentChanges st)"
  shows "approve now changeId st = (NotFound, st)"
proof -
  have "filter (\<lambda>c. c_id c = changeId) (agentChanges st) = []"
    using assms by (auto simp: filter_empty_conv)
  then show ?thesis by (simp add: approve_def)
qed

lemma approve_decided:
  assumes "filter (\<lambda>c. c_id c = changeId) (agentChanges st) = change # rest"
    "c_status change \<noteq> Pending"
  shows "approve now changeId st = (AlreadyDecided, st)"
  using assms by (simp add: approve_def)

text \<open>The reject route answers 200 for an unknown id; it changes nothing then.\<close>

lemma reject_unknown:
  "changeId \<notin> c_id ` set (agentChanges st) \<Longrightarrow>
   reject now changeId r st = (Done ''Change rejected'' changeId, st)"
  by (simp add: reject_def setChange_absent)

text \<open>
  C3 does not hold of the reject route. On a change that has been approved and executed,
  approve answers \<^verbatim>\<open>Change already processed\<close> and writes nothing, as C3 requires;
  reject answers \<^verbatim>\<open>Change rejected\<close> and overwrites the status, the approval time and
  the error of the executed change.
\<close>

theorem reject_overwrites_decided_change:
  "approve 1700000900 ''c1'' (emptyState\<lparr>agentChanges := [executedChange]\<rparr>) =
     (AlreadyDecided, emptyState\<lparr>agentChanges := [executedChange]\<rparr>) \<and>
   reject 1700000900 ''c1'' (Some ''too late'')
      (emptyState\<lparr>agentChanges := [executedChange]\<rparr>) =
     (Done ''Change rejected'' ''c1'',
      emptyState\<lparr>agentChanges :=
        [executedChange\<lparr>c_status := Rejected, c_approvedAt := Some 1700000900,
                        c_error := Some ''too late''\<rparr>]\<rparr>)"
  by (simp add: reject_def approve_def setChange_def emptyState_def executedChange_def)

text \<open>
  C7 does not hold of the reject route. For an id that is not in the change table,
  approve answers \<^verbatim>\<open>Change not found\<close>; reject answers \<^verbatim>\<open>Change rejected\<close> with
  status 200. Neither creates or modifies a change.
\<close>

theorem reject_unknown_change_succeeds:
  "approve 1700000900 ''c2'' (emptyState\<lparr>agentChanges := [executedChange]\<rparr>) =
     (NotFound, emptyState\<lparr>agentChanges := [executedChange]\<rparr>) \<and>
   reject 1700000900 ''c2'' (Some ''no such change'')
      (emptyState\<lparr>agentChanges := [executedChange]\<rparr>) =
     (Done ''Change rejected'' ''c2'', emptyState\<lparr>agentChanges := [executedChange]\<rparr>)"
  by (simp add: reject_def approve_def setChange_def emptyState_def executedChange_def)

subsection \<open>The queue consumer: unknown types, failures and retries\<close>

lemma setTask_setTask:
  assumes "\<And>t. t_id (g t) = t_id t"
  shows "setTask k f (setTask k g st) = setTask k (\<lambda>t. f (g t)) st"
  by (simp add: setTask_def comp_def assms)

lemma dispatch_None_iff:
  "dispatch H message = None \<longleftrightarrow> m_type message \<notin> set handlerTypes"
  by (simp add: dispatch_def handlerTypes_def)

text \<open>A batch is handled message by message, in order, each from the state the last left.\<close>

lemma handleQueueBatch_Cons:
  "handleQueueBatch H now (message # messages) st =
     (fst (handleQueueBatch H now messages (fst (handleQueueBatch H now [message] st))),
      snd (handleQueueBatch H now [message] st) @
      snd (handleQueueBatch H now messages (fst (handleQueueBatch H now [message] st))))"
proof (cases "processMessage H now (msg_body message) st")
  case (Pair err st1)
  show ?thesis
  proof (cases err)
    case None
    with Pair show ?thesis by (simp add: case_prod_beta)
  next
    case (Some e)
    with Pair show ?thesis by (simp add: case_prod_beta Let_def)
  qed
qed

lemma handleQueueBatch_append:
  "handleQueueBatch H now (xs @ ys) st =
     (fst (handleQueueBatch H now ys (fst (handleQueueBatch H now xs st))),
      snd (handleQueueBatch H now xs st) @
      snd (handleQueueBatch H now ys (fst (handleQueueBatch H now xs st))))"
proof (induction xs arbitrary: st)
  case Nil
  show ?case by simp
next
  case (Cons x xs)
  let ?s1 = "fst (handleQueueBatch H now [x] st)"
  have "handleQueueBatch H now ((x # xs) @ ys) st = handleQueueBatch H now (x # (xs @ ys)) st"
    by simp
  also have "\<dots> =
     (fst (handleQueueBatch H now (xs @ ys) ?s1),
      snd (handleQueueBatch H now [x] st) @ snd (handleQueueBatch H now (xs @ ys) ?s1))"
    by (rule handleQueueBatch_Cons)
  finally have step: "handleQueueBatch H now ((x # xs) @ ys) st =
     (fst (handleQueueBatch H now (xs @ ys) ?s1),
      snd (handleQueueBatch H now [x] st) @ snd (handleQueueBatch H now (xs @ ys) ?s1))" .
  have whole: "handleQueueBatch H now (x # xs) st =
     (fst (handleQueueBatch H now xs ?s1),
      snd (handleQueueBatch H now [x] st) @ snd (handleQueueBatch H now xs ?s1))"
    by (rule handleQueueBatch_Cons)
  show ?case
    unfolding step whole Cons.IH [of ?s1] by simp
qed

lemma handleQueueBatch_middle:
  "handleQueueBatch H now (before @ message # after) st =
     (fst (handleQueueBatch H now after
        (fst (handleQueueBatch H now [message] (fst (handleQueueBatch H now before st))))),
      snd (handleQueueBatch H now before st) @
      snd (handleQueueBatch H now [message] (fst (handleQueueBatch H now before st))) @
      snd (handleQueueBatch H now after
        (fst (handleQueueBatch H now [message] (fst (handleQueueBatch H now before st))))))"
proof -
  let ?s0 = "fst (handleQueueBatch H now before st)"
  have a: "handleQueueBatch H now (before @ message # after) st =
     (fst (handleQueueBatch H now (message # after) ?s0),
      snd (handleQueueBatch H now before st) @ snd (handleQueueBatch H now (message # after) ?s0))"
    by (rule handleQueueBatch_append)
  have b: "handleQueueBatch H now (message # after) ?s0 =
     (fst (handleQueueBatch H now after (fst (handleQueueBatch H now [message] ?s0))),
      snd (handleQueueBatch H now [message] ?s0) @
      snd (handleQueueBatch H now after (fst (handleQueueBatch H now [message] ?s0))))"
    by (rule handleQueueBatch_Cons)
  show ?thesis unfolding a b by simp
qed

text \<open>A write for one task id leaves the rows of every other id as they are.\<close>

lemma filter_map_other:
  assumes "k' \<noteq> k" "\<And>t. t_id (upd t) = t_id t"
  shows "filter (\<lambda>t. t_id t = k) (map (\<lambda>t. if t_id t = k' then upd t else t) xs) =
         filter (\<lambda>t. t_id t = k) xs"
  using assms by (induction xs) auto

lemma setTask_other:
  assumes "k' \<noteq> k" "\<And>t. t_id (upd t) = t_id t"
  shows "filter (\<lambda>t. t_id t = k) (agentTasks (setTask k' upd st)) =
         filter (\<lambda>t. t_id t = k) (agentTasks st)"
  using assms by (simp add: setTask_def filter_map_other)

lemma applyRun_other:
  assumes "k' \<noteq> k"
  shows "filter (\<lambda>t. t_id t = k) (agentTasks (applyRun k' r st)) =
         filter (\<lambda>t. t_id t = k) (agentTasks st)"
proof (cases "taskResult r")
  case None
  then show ?thesis by (simp add: applyRun_def)
next
  case (Some res)
  have "filter (\<lambda>t. t_id t = k)
          (agentTasks (setTask k' (\<lambda>t. t\<lparr>t_result := Some res\<rparr>)
             (st\<lparr>kpiSnapshots := kpiSnapshots st @ kpiRows r\<rparr>))) =
        filter (\<lambda>t. t_id t = k) (agentTasks (st\<lparr>kpiSnapshots := kpiSnapshots st @ kpiRows r\<rparr>))"
    using assms by (rule setTask_other) simp
  with Some show ?thesis by (simp add: applyRun_def)
qed

lemma processMessage_other:
  assumes "m_taskId b \<noteq> k"
  shows "filter (\<lambda>t. t_id t = k) (agentTasks (snd (processMessage H now b st))) =
         filter (\<lambda>t. t_id t = k) (agentTasks st)"
  using assms
  by (simp add: processMessage_def Let_def setTask_other applyRun_other split: option.split)

lemma handleQueueBatch_single_other:
  assumes "m_taskId (msg_body message) \<noteq> k"
  shows "filter (\<lambda>t. t_id t = k) (agentTasks (fst (handleQueueBatch H now [message] st))) =
         filter (\<lambda>t. t_id t = k) (agentTasks st)"
proof (cases "processMessage H now (msg_body message) st")
  case (Pair err st1)
  have o: "filter (\<lambda>t. t_id t = k) (agentTasks st1) = filter (\<lambda>t. t_id t = k) (agentTasks st)"
    using processMessage_other [OF assms, of H now st] Pair by simp
  show ?thesis
  proof (cases err)
    case None
    with Pair o show ?thesis by simp
  next
    case (Some e)
    with Pair o assms show ?thesis by (simp add: setTask_other)
  qed
qed

lemma handleQueueBatch_other:
  assumes "\<forall>m \<in> set messages. m_taskId (msg_body m) \<noteq> k"
  shows "filter (\<lambda>t. t_id t = k) (agentTasks (fst (handleQueueBatch H now messages st))) =
         filter (\<lambda>t. t_id t = k) (agentTasks st)"
  using assms
proof (induction messages arbitrary: st)
  case Nil
  show ?case by simp
next
  case (Cons m ms)
  let ?s1 = "fst (handleQueueBatch H now [m] st)"
  have h: "m_taskId (msg_body m) \<noteq> k" and t: "\<forall>m \<in> set ms. m_taskId (msg_body m) \<noteq> k"
    using Cons.prems by simp_all
  have c: "handleQueueBatch H now (m # ms) st =
     (fst (handleQueueBatch H now ms ?s1),
      snd (handleQueueBatch H now [m] st) @ snd (handleQueueBatch H now ms ?s1))"
    by (rule handleQueueBatch_Cons)
  have "fst (handleQueueBatch H now (m # ms) st) = fst (handleQueueBatch H now ms ?s1)"
    by (simp only: c fst_conv)
  then have "filter (\<lambda>t. t_id t = k) (agentTasks (fst (handleQueueBatch H now (m # ms) st))) =
        filter (\<lambda>t. t_id t = k) (agentTasks (fst (handleQueueBatch H now ms ?s1)))"
    by simp
  also have "\<dots> = filter (\<lambda>t. t_id t = k) (agentTasks ?s1)"
    using t by (rule Cons.IH)
  also have "\<dots> = filter (\<lambda>t. t_id t = k) (agentTasks st)"
    using h by (rule handleQueueBatch_single_other)
  finally show ?case .
qed

lemma rows_of_id:
  assumes "filter (\<lambda>t. t_id t = k) (agentTasks st') = filter (\<lambda>t. t_id t = k) (agentTasks st)"
    "t \<in> set (agentTasks st')" "t_id t = k"
  shows "t \<in> set (agentTasks st)"
proof -
  have "t \<in> set (filter (\<lambda>t. t_id t = k) (agentTasks st'))"
    using assms(2,3) by simp
  then have "t \<in> set (filter (\<lambda>t. t_id t = k) (agentTasks st))"
    using assms(1) by simp
  then show ?thesis by simp
qed

lemma setTask_rows:
  assumes "t \<in> set (agentTasks (setTask k upd st))" "t_id t = k"
    "\<And>r. t_id (upd r) = t_id r"
  shows "\<exists>r. t = upd r"
  using assms by (auto simp: setTask_def split: if_splits)

text \<open>
  C10. Every message of a batch whose type has no handler runs no handler:
  \<^verbatim>\<open>processMessage\<close> throws nothing and only sets the task's start time, status
  \<^verbatim>\<open>completed\<close> and completion time; wherever the message stands in the batch, the
  consumer does exactly that to the state the earlier messages left, acknowledges the
  message, and goes on with the later ones; and unless a later message of the batch names
  the same task, the batch ends with that task completed.
\<close>

theorem unknown_type_completes:
  assumes "m_type (msg_body message) \<notin> set handlerTypes"
  shows "processMessage H now (msg_body message) st =
           (None, setTask (m_taskId (msg_body message))
                    (\<lambda>t. t\<lparr>t_startedAt := Some now, t_status := TCompleted,
                           t_completedAt := Some now\<rparr>) st) \<and>
         handleQueueBatch H now [message] st =
           (setTask (m_taskId (msg_body message))
              (\<lambda>t. t\<lparr>t_startedAt := Some now, t_status := TCompleted,
                     t_completedAt := Some now\<rparr>) st,
            [(msg_id message, Ack)]) \<and>
         handleQueueBatch H now (before @ message # after) st =
           (fst (handleQueueBatch H now after
              (setTask (m_taskId (msg_body message))
                 (\<lambda>t. t\<lparr>t_startedAt := Some now, t_status := TCompleted,
                        t_completedAt := Some now\<rparr>)
                 (fst (handleQueueBatch H now before st)))),
            snd (handleQueueBatch H now before st) @
            (msg_id message, Ack) #
            snd (handleQueueBatch H now after
              (setTask (m_taskId (msg_body message))
                 (\<lambda>t. t\<lparr>t_startedAt := Some now, t_status := TCompleted,
                        t_completedAt := Some now\<rparr>)
                 (fst (handleQueueBatch H now before st))))) \<and>
         ((\<forall>m \<in> set after. m_taskId (msg_body m) \<noteq> m_taskId (msg_body message)) \<longrightarrow>
          (\<forall>t \<in> set (agentTasks
                      (fst (handleQueueBatch H now (before @ message # after) st))).
             t_id t = m_taskId (msg_body message) \<longrightarrow>
               t_status t = TCompleted \<and> t_completedAt t = Some now))"
proof -
  let ?k = "m_taskId (msg_body message)"
  let ?completed = "\<lambda>t. t\<lparr>t_startedAt := Some now, t_status := TCompleted,
                          t_completedAt := Some now\<rparr>"
  let ?s0 = "fst (handleQueueBatch H now before st)"
  have d: "dispatch H (msg_body message) = None"
    using assms by (simp add: dispatch_None_iff)
  have p: "processMessage H now (msg_body message) s = (None, setTask ?k ?completed s)" for s
    using d by (simp add: processMessage_def setTask_setTask)
  have single: "handleQueueBatch H now [message] s =
                  (setTask ?k ?completed s, [(msg_id message, Ack)])" for s
    by (simp add: p)
  have middle: "handleQueueBatch H now (before @ message # after) st =
           (fst (handleQueueBatch H now after (setTask ?k ?completed ?s0)),
            snd (handleQueueBatch H now before st) @
            (msg_id message, Ack) #
            snd (handleQueueBatch H now after (setTask ?k ?completed ?s0)))"
    unfolding handleQueueBatch_middle [of H now before message after st] single
    by simp
  have rows: "(\<forall>m \<in> set after. m_taskId (msg_body m) \<noteq> ?k) \<longrightarrow>
          (\<forall>t \<in> set (agentTasks
                      (fst (handleQueueBatch H now (before @ message # after) st))).
             t_id t = ?k \<longrightarrow> t_status t = TCompleted \<and> t_completedAt t = Some now)"
  proof (intro impI ballI)
    fix t
    assume later: "\<forall>m \<in> set after. m_taskId (msg_body m) \<noteq> ?k"
      and t: "t \<in> set (agentTasks
                      (fst (handleQueueBatch H now (before @ message # after) st)))"
      and k: "t_id t = ?k"
    have t': "t \<in> set (agentTasks
                (fst (handleQueueBatch H now after (setTask ?k ?completed ?s0))))"
      using t unfolding middle by simp
    have "t \<in> set (agentTasks (setTask ?k ?completed ?s0))"
      using handleQueueBatch_other [OF later] t' k by (rule rows_of_id)
    then obtain r where "t = ?completed r"
      using k setTask_rows [of t ?k ?completed ?s0] by auto
    then show "t_status t = TCompleted \<and> t_completedAt t = Some now"
      by simp
  qed
  show ?thesis
    by (intro conjI) (rule p single middle rows)+
qed

theorem unknown_type_completes_witness:
  "handleQueueBatch failingHandlers 1700000000
      [sampleMessage ''m0'' ''t0'' ''send_email'', sampleMessage ''m1'' ''t1'' ''reindex'',
       sampleMessage ''m2'' ''t2'' ''send_email'']
      (emptyState\<lparr>agentTasks :=
         [sampleTask ''t0'' ''send_email'' 0 None, sampleTask ''t1'' ''reindex'' 0 None,
          sampleTask ''t2'' ''send_email'' 0 None]\<rparr>) =
     (emptyState\<lparr>agentTasks :=
        [(sampleTask ''t0'' ''send_email'' 0 None)
           \<lparr>t_status := TFailed, t_error := Some ''Email send failed: Bad Gateway'',
            t_startedAt := Some 1700000000, t_completedAt := Some 1700000000\<rparr>,
         (sampleTask ''t1'' ''reindex'' 0 None)
           \<lparr>t_status := TCompleted, t_startedAt := Some 1700000000,
            t_completedAt := Some 1700000000\<rparr>,
         (sampleTask ''t2'' ''send_email'' 0 None)
           \<lparr>t_status := TFailed, t_error := Some ''Email send failed: Bad Gateway'',
            t_startedAt := Some 1700000000, t_completedAt := Some 1700000000\<rparr>]\<rparr>,
      [(''m0'', Retry), (''m1'', Ack), (''m2'', Retry)])"
proof -
  have u: "m_type (msg_body (sampleMessage ''m1'' ''t1'' ''reindex'')) \<notin> set handlerTypes"
    by (simp add: sampleMessage_def handlerTypes_def)
  note batch =
    unknown_type_completes [OF u, where H = failingHandlers and now = 1700000000 and
      before = "[sampleMessage ''m0'' ''t0'' ''send_email'']" and
      after = "[sampleMessage ''m2'' ''t2'' ''send_email'']" and
      st = "emptyState\<lparr>agentTasks :=
         [sampleTask ''t0'' ''send_email'' 0 None, sampleTask ''t1'' ''reindex'' 0 None,
          sampleTask ''t2'' ''send_email'' 0 None]\<rparr>",
      THEN conjunct2, THEN conjunct2, THEN conjunct1]
  show ?thesis
    using batch
    by (simp add: processMessage_def dispatch_def failingHandlers_def failingRun_def
        sampleMessage_def sampleTask_def emptyState_def setTask_def applyRun_def)
qed

text \<open>No write of the consumer touches \<^verbatim>\<open>attempts\<close> or \<^verbatim>\<open>max_attempts\<close>.\<close>

lemma setTask_attempts:
  assumes "\<And>t. t_attempts (upd t) = t_attempts t"
    "\<And>t. t_maxAttempts (upd t) = t_maxAttempts t"
  shows "map t_attempts (agentTasks (setTask k upd st)) = map t_attempts (agentTasks st)"
    and "map t_maxAttempts (agentTasks (setTask k upd st)) = map t_maxAttempts (agentTasks st)"
  by (simp_all add: setTask_def comp_def assms cong: if_cong)

lemma applyRun_attempts:
  "map t_attempts (agentTasks (applyRun k r st)) = map t_attempts (agentTasks st)"
  "map t_maxAttempts (agentTasks (applyRun k r st)) = map t_maxAttempts (agentTasks st)"
  by (simp_all add: applyRun_def Let_def setTask_attempts split: option.split)

lemma processMessage_attempts:
  "map t_attempts (agentTasks (snd (processMessage H now b st))) =
     map t_attempts (agentTasks st)"
  "map t_maxAttempts (agentTasks (snd (processMessage H now b st))) =
     map t_maxAttempts (agentTasks st)"
  by (simp_all add: processMessage_def Let_def setTask_attempts applyRun_attempts
      split: option.split)

lemma handleQueueBatch_attempts:
  "map t_attempts (agentTasks (fst (handleQueueBatch H now messages st))) =
     map t_attempts (agentTasks st) \<and>
   map t_maxAttempts (agentTasks (fst (handleQueueBatch H now messages st))) =
     map t_maxAttempts (agentTasks st)"
proof (induction messages arbitrary: st)
  case Nil
  then show ?case by simp
next
  case (Cons message messages)
  obtain err st1 where p: "processMessage H now (msg_body message) st = (err, st1)"
    by (cases "processMessage H now (msg_body message) st")
  have a1: "map t_attempts (agentTasks st1) = map t_attempts (agentTasks st)"
    and m1: "map t_maxAttempts (agentTasks st1) = map t_maxAttempts (agentTasks st)"
    using processMessage_attempts [of H now "msg_body message" st] p by simp_all
  show ?case
  proof (cases err)
    case None
    obtain st' calls where r: "handleQueueBatch H now messages st1 = (st', calls)"
      by (cases "handleQueueBatch H now messages st1")
    from Cons.IH [of st1] r a1 m1 p None show ?thesis by simp
  next
    case (Some e)
    let ?st2 = "if m_taskId (msg_body message) \<noteq> []
                then setTask (m_taskId (msg_body message))
                       (\<lambda>t. t\<lparr>t_status := TFailed, t_error := Some (errorMessage e),
                              t_completedAt := Some now\<rparr>) st1
                else st1"
    have a2: "map t_attempts (agentTasks ?st2) = map t_attempts (agentTasks st)"
      and m2: "map t_maxAttempts (agentTasks ?st2) = map t_maxAttempts (agentTasks st)"
      using a1 m1 by (simp_all add: setTask_attempts)
    obtain st' calls where r: "handleQueueBatch H now messages ?st2 = (st', calls)"
      by (cases "handleQueueBatch H now messages ?st2")
    from Cons.IH [of ?st2] r a2 m2 p Some show ?thesis by (simp add: Let_def)
  qed
qed

text \<open>
  C2 as stated fails: the consumer has no retry budget. With handlers that fail, a task
  with \<^verbatim>\<open>attempts\<close> 0 of 3 keeps \<^verbatim>\<open>attempts\<close> 0 and is left \<^verbatim>\<open>failed\<close>, not
  \<^verbatim>\<open>pending\<close>; and for a task whose \<^verbatim>\<open>attempts\<close> already equals \<^verbatim>\<open>max_attempts\<close>
  the consumer still calls \<^verbatim>\<open>retry()\<close> on the message.
\<close>

theorem failed_task_not_counted_and_always_retried:
  "map t_attempts (agentTasks (fst (handleQueueBatch failingHandlers 1700000000
      [sampleMessage ''m1'' ''t1'' ''send_email'']
      (emptyState\<lparr>agentTasks := [sampleTask ''t1'' ''send_email'' 0 None]\<rparr>)))) = [0] \<and>
   map t_status (agentTasks (fst (handleQueueBatch failingHandlers 1700000000
      [sampleMessage ''m1'' ''t1'' ''send_email'']
      (emptyState\<lparr>agentTasks := [sampleTask ''t1'' ''send_email'' 0 None]\<rparr>)))) = [TFailed] \<and>
   t_maxAttempts (sampleTask ''t1'' ''send_email'' 3 None) = 3 \<and>
   snd (handleQueueBatch failingHandlers 1700000000
      [sampleMessage ''m1'' ''t1'' ''send_email'']
      (emptyState\<lparr>agentTasks := [sampleTask ''t1'' ''send_email'' 3 None]\<rparr>)) =
     [(''m1'', Retry)]"
  by (simp add: processMessage_def dispatch_def failingHandlers_def failingRun_def
      sampleMessage_def sampleTask_def emptyState_def setTask_def applyRun_def)

text \<open>
  C2, amended. For every message of a batch whose handler fails and that names a task,
  wherever the message stands in the batch: the consumer leaves the task running with the
  handler's writes, then sets it \<^verbatim>\<open>failed\<close> with the error message and a completion
  time, calls \<^verbatim>\<open>retry()\<close> on the message whatever \<^verbatim>\<open>attempts\<close> and \<^verbatim>\<open>max_attempts\<close>
  are, and goes on with the later messages; unless a later message of the batch names the
  same task, the batch ends with that task failed. No batch changes \<^verbatim>\<open>attempts\<close> or
  \<^verbatim>\<open>max_attempts\<close> of any task.
\<close>

theorem failed_handler_marks_failed_and_retries:
  assumes "dispatch H (msg_body message) = Some r" "thrown r = Some e"
    "m_taskId (msg_body message) \<noteq> []"
  shows "handleQueueBatch H now (before @ message # after) st =
           (fst (handleQueueBatch H now after
              (setTask (m_taskId (msg_body message))
                 (\<lambda>t. t\<lparr>t_status := TFailed, t_error := Some (errorMessage e),
                        t_completedAt := Some now\<rparr>)
                 (applyRun (m_taskId (msg_body message)) r
                    (setTask (m_taskId (msg_body message))
                       (\<lambda>t. t\<lparr>t_status := TRunning, t_startedAt := Some now\<rparr>)
                       (fst (handleQueueBatch H now before st)))))),
            snd (handleQueueBatch H now before st) @
            (msg_id message, Retry) #
            snd (handleQueueBatch H now after
              (setTask (m_taskId (msg_body message))
                 (\<lambda>t. t\<lparr>t_status := TFailed, t_error := Some (errorMessage e),
                        t_completedAt := Some now\<rparr>)
                 (applyRun (m_taskId (msg_body message)) r
                    (setTask (m_taskId (msg_body message))
                       (\<lambda>t. t\<lparr>t_status := TRunning, t_startedAt := Some now\<rparr>)
                       (fst (handleQueueBatch H now before st))))))) \<and>
         ((\<forall>m \<in> set after. m_taskId (msg_body m) \<noteq> m_taskId (msg_body message)) \<longrightarrow>
          (\<forall>t \<in> set (agentTasks
                      (fst (handleQueueBatch H now (before @ message # after) st))).
             t_id t = m_taskId (msg_body message) \<longrightarrow>
               t_status t = TFailed \<and> t_error t = Some (errorMessage e) \<and>
               t_completedAt t = Some now)) \<and>
         map t_attempts (agentTasks (fst (handleQueueBatch H now messages st))) =
           map t_attempts (agentTasks st) \<and>
         map t_maxAttempts (agentTasks (fst (handleQueueBatch H now messages st))) =
           map t_maxAttempts (agentTasks st)"
proof -
  let ?k = "m_taskId (msg_body message)"
  let ?failed = "\<lambda>t. t\<lparr>t_status := TFailed, t_error := Some (errorMessage e),
                       t_completedAt := Some now\<rparr>"
  let ?ran = "\<lambda>s. applyRun ?k r
                (setTask ?k (\<lambda>t. t\<lparr>t_status := TRunning, t_startedAt := Some now\<rparr>) s)"
  let ?s0 = "fst (handleQueueBatch H now before st)"
  have p: "processMessage H now (msg_body message) s = (Some e, ?ran s)" for s
    using assms(1,2) by (simp add: processMessage_def)
  have single: "handleQueueBatch H now [message] s =
                  (setTask ?k ?failed (?ran s), [(msg_id message, Retry)])" for s
    using assms(3) by (simp add: p)
  have middle: "handleQueueBatch H now (before @ message # after) st =
           (fst (handleQueueBatch H now after (setTask ?k ?failed (?ran ?s0))),
            snd (handleQueueBatch H now before st) @
            (msg_id message, Retry) #
            snd (handleQueueBatch H now after (setTask ?k ?failed (?ran ?s0))))"
    unfolding handleQueueBatch_middle [of H now before message after st] single
    by simp
  have rows: "(\<forall>m \<in> set after. m_taskId (msg_body m) \<noteq> ?k) \<longrightarrow>
          (\<forall>t \<in> set (agentTasks
                      (fst (handleQueueBatch H now (before @ message # after) st))).
             t_id t = ?k \<longrightarrow>
               t_status t = TFailed \<and> t_error t = Some (errorMessage e) \<and>
               t_completedAt t = Some now)"
  proof (intro impI ballI)
    fix t
    assume later: "\<forall>m \<in> set after. m_taskId (msg_body m) \<noteq> ?k"
      and t: "t \<in> set (agentTasks
                      (fst (handleQueueBatch H now (before @ message # after) st)))"
      and k: "t_id t = ?k"
    have t': "t \<in> set (agentTasks
                (fst (handleQueueBatch H now after (setTask ?k ?failed (?ran ?s0)))))"
      using t unfolding middle by simp
    have "t \<in> set (agentTasks (setTask ?k ?failed (?ran ?s0)))"
      using handleQueueBatch_other [OF later] t' k by (rule rows_of_id)
    then obtain r' where "t = ?failed r'"
      using k setTask_rows [of t ?k ?failed "?ran ?s0"] by auto
    then show "t_status t = TFailed \<and> t_error t = Some (errorMessage e) \<and>
               t_completedAt t = Some now"
      by simp
  qed
  note counters = handleQueueBatch_attempts [of H now messages st]
  show ?thesis
    by (intro conjI) (rule middle rows counters [THEN conjunct1] counters [THEN conjunct2])+
qed

theorem failed_handler_marks_failed_and_retries_witness:
  "handleQueueBatch failingHandlers 1700000000
      [sampleMessage ''m0'' ''t0'' ''reindex'', sampleMessage ''m1'' ''t1'' ''send_email'',
       sampleMessage ''m2'' ''t2'' ''reindex'']
      (emptyState\<lparr>agentTasks :=
         [sampleTask ''t0'' ''reindex'' 0 None, sampleTask ''t1'' ''send_email'' 3 None,
          sampleTask ''t2'' ''reindex'' 0 None]\<rparr>) =
     (emptyState\<lparr>agentTasks :=
        [(sampleTask ''t0'' ''reindex'' 0 None)
           \<lparr>t_status := TCompleted, t_startedAt := Some 1700000000,
            t_completedAt := Some 1700000000\<rparr>,
         (sampleTask ''t1'' ''send_email'' 3 None)
           \<lparr>t_status := TFailed, t_error := Some ''Email send failed: Bad Gateway'',
            t_startedAt := Some 1700000000, t_completedAt := Some 1700000000\<rparr>,
         (sampleTask ''t2'' ''reindex'' 0 None)
           \<lparr>t_status := TCompleted, t_startedAt := Some 1700000000,
            t_completedAt := Some 1700000000\<rparr>]\<rparr>,
      [(''m0'', Ack), (''m1'', Retry), (''m2'', Ack)])"
proof -
  have d: "dispatch failingHandlers (msg_body (sampleMessage ''m1'' ''t1'' ''send_email'')) =
      Some (failingRun (msg_body (sampleMessage ''m1'' ''t1'' ''send_email'')))"
    by (simp add: dispatch_def failingHandlers_def sampleMessage_def)
  have t: "thrown (failingRun (msg_body (sampleMessage ''m1'' ''t1'' ''send_email''))) =
      Some (Error ''Email send failed: Bad Gateway'')"
    by (simp add: failingRun_def)
  have k: "m_taskId (msg_body (sampleMessage ''m1'' ''t1'' ''send_email'')) \<noteq> []"
    by (simp add: sampleMessage_def)
  note batch =
    failed_handler_marks_failed_and_retries [OF d t k, where now = 1700000000 and
      before = "[sampleMessage ''m0'' ''t0'' ''reindex'']" and
      after = "[sampleMessage ''m2'' ''t2'' ''reindex'']" and
      st = "emptyState\<lparr>agentTasks :=
         [sampleTask ''t0'' ''reindex'' 0 None, sampleTask ''t1'' ''send_email'' 3 None,
          sampleTask ''t2'' ''reindex'' 0 None]\<rparr>",
      THEN conjunct1]
  show ?thesis
    using batch
    by (simp add: processMessage_def dispatch_def failingHandlers_def failingRun_def
        sampleMessage_def sampleTask_def emptyState_def setTask_def applyRun_def)
qed

subsection \<open>The scheduled task sweep\<close>

lemma sendAndStart_fields:
  "JOBS_QUEUE (sendAndStart now t st) = JOBS_QUEUE st @ [queueMessageOf t]"
  "agentTasks (sendAndStart now t st) =
     map (\<lambda>r. if t_id r = t_id t then r\<lparr>t_status := TRunning, t_startedAt := Some now\<rparr> else r)
       (agentTasks st)"
  by (simp_all add: sendAndStart_def setTask_def)

lemma fold_sendAndStart_queue:
  "JOBS_QUEUE (fold (sendAndStart now) ts st) = JOBS_QUEUE st @ map queueMessageOf ts"
  by (induction ts arbitrary: st) (simp_all add: sendAndStart_fields)

lemma running_idem:
  "(if t_id (if t_id r = k then r\<lparr>t_status := TRunning, t_startedAt := Some now\<rparr> else r) \<in> K
    then (if t_id r = k then r\<lparr>t_status := TRunning, t_startedAt := Some now\<rparr> else r)
           \<lparr>t_status := TRunning, t_startedAt := Some now\<rparr>
    else (if t_id r = k then r\<lparr>t_status := TRunning, t_startedAt := Some now\<rparr> else r)) =
   (if t_id r \<in> insert k K then r\<lparr>t_status := TRunning, t_startedAt := Some now\<rparr> else r)"
  by (cases "t_id r = k") simp_all

lemma fold_sendAndStart_tasks:
  "agentTasks (fold (sendAndStart now) ts st) =
     map (\<lambda>r. if t_id r \<in> t_id ` set ts
               then r\<lparr>t_status := TRunning, t_startedAt := Some now\<rparr> else r)
       (agentTasks st)"
proof (induction ts arbitrary: st)
  case Nil
  then show ?case by simp
next
  case (Cons t ts)
  have "agentTasks (fold (sendAndStart now) (t # ts) st) =
        agentTasks (fold (sendAndStart now) ts (sendAndStart now t st))"
    by simp
  also have "\<dots> = map (\<lambda>r. if t_id r \<in> t_id ` set ts
               then r\<lparr>t_status := TRunning, t_startedAt := Some now\<rparr> else r)
       (agentTasks (sendAndStart now t st))"
    by (rule Cons.IH)
  also have "\<dots> = map (\<lambda>r. if t_id r \<in> insert (t_id t) (t_id ` set ts)
               then r\<lparr>t_status := TRunning, t_startedAt := Some now\<rparr> else r)
       (agentTasks st)"
    unfolding sendAndStart_fields map_map comp_def running_idem ..
  finally show ?case by simp
qed

lemma selected_due:
  assumes "t \<in> set (selectScheduledTasks now st)"
  shows "t \<in> set (agentTasks st) \<and> isDue now t"
proof -
  have "t \<in> set (filter (isDue now) (agentTasks st))"
    using assms unfolding selectScheduledTasks_def by (rule in_set_takeD)
  then show ?thesis by simp
qed

lemma isDue_iff:
  "isDue now t \<longleftrightarrow> t_status t = TPending \<and> (\<exists>s. t_scheduledFor t = Some s \<and> s \<le> now)"
  by (simp add: isDue_def split: option.split)

text \<open>
  C8 as stated fails in the order it names: the query asks for no order, so the sweep
  takes the due tasks as the table enumerates them. With a task due at 200 stored before
  a task due at 100, the later one is selected and sent first.
\<close>

theorem sweep_order_is_table_order:
  "map t_scheduledFor (selectScheduledTasks 300
      (emptyState\<lparr>agentTasks := [sampleTask ''late'' ''send_email'' 0 (Some 200),
                                 sampleTask ''early'' ''send_email'' 0 (Some 100)]\<rparr>)) =
     [Some 200, Some 100] \<and>
   map m_taskId (JOBS_QUEUE (processScheduledTasks 300
      (emptyState\<lparr>agentTasks := [sampleTask ''late'' ''send_email'' 0 (Some 200),
                                 sampleTask ''early'' ''send_email'' 0 (Some 100)]\<rparr>))) =
     [''late'', ''early'']"
  by (simp add: processScheduledTasks_def selectScheduledTasks_def isDue_def sampleTask_def
      emptyState_def sendAndStart_def setTask_def queueMessageOf_def)

text \<open>
  C8, amended. Each run of the sweep selects the first ten, at most, of the tasks with
  status pending and a \<^verbatim>\<open>scheduledFor\<close> that is set and not after now, in the order
  the table enumerates them; it sends one queue message for each, in that order, and sets
  each task with a selected id to running, started now. No other task is changed.
\<close>

theorem sweep_selects_due_batch:
  "selectScheduledTasks now st = take 10 (filter (isDue now) (agentTasks st)) \<and>
   length (selectScheduledTasks now st) \<le> 10 \<and>
   (\<forall>t \<in> set (selectScheduledTasks now st).
      t \<in> set (agentTasks st) \<and> t_status t = TPending \<and>
      (\<exists>s. t_scheduledFor t = Some s \<and> s \<le> now)) \<and>
   JOBS_QUEUE (processScheduledTasks now st) =
     JOBS_QUEUE st @ map queueMessageOf (selectScheduledTasks now st) \<and>
   agentTasks (processScheduledTasks now st) =
     map (\<lambda>r. if t_id r \<in> t_id ` set (selectScheduledTasks now st)
               then r\<lparr>t_status := TRunning, t_startedAt := Some now\<rparr> else r)
       (agentTasks st)"
proof -
  have sel: "selectScheduledTasks now st = take 10 (filter (isDue now) (agentTasks st))"
    by (simp only: selectScheduledTasks_def)
  have len: "length (selectScheduledTasks now st) \<le> 10"
    by (simp add: selectScheduledTasks_def)
  have due: "\<forall>t \<in> set (selectScheduledTasks now st).
      t \<in> set (agentTasks st) \<and> t_status t = TPending \<and>
      (\<exists>s. t_scheduledFor t = Some s \<and> s \<le> now)"
  proof
    fix t assume "t \<in> set (selectScheduledTasks now st)"
    then have "t \<in> set (agentTasks st) \<and> isDue now t" by (rule selected_due)
    then show "t \<in> set (agentTasks st) \<and> t_status t = TPending \<and>
      (\<exists>s. t_scheduledFor t = Some s \<and> s \<le> now)"
      by (simp only: isDue_iff)
  qed
  have q: "JOBS_QUEUE (processScheduledTasks now st) =
     JOBS_QUEUE st @ map queueMessageOf (selectScheduledTasks now st)"
    by (simp only: processScheduledTasks_def fold_sendAndStart_queue)
  have ts: "agentTasks (processScheduledTasks now st) =
     map (\<lambda>r. if t_id r \<in> t_id ` set (selectScheduledTasks now st)
               then r\<lparr>t_status := TRunning, t_startedAt := Some now\<rparr> else r)
       (agentTasks st)"
    by (simp only: processScheduledTasks_def fold_sendAndStart_tasks)
  show ?thesis
    by (intro conjI) (rule sel len due q ts)+
qed

theorem sweep_selects_due_batch_witness:
  "map t_id (selectScheduledTasks 300
      (emptyState\<lparr>agentTasks :=
         [sampleTask ''late'' ''send_email'' 0 (Some 200),
          sampleTask ''unscheduled'' ''send_email'' 0 None,
          sampleTask ''future'' ''send_email'' 0 (Some 301),
          sampleTask ''early'' ''send_email'' 0 (Some 100)]\<rparr>)) = [''late'', ''early''] \<and>
   map t_status (agentTasks (processScheduledTasks 300
      (emptyState\<lparr>agentTasks :=
         [sampleTask ''late'' ''send_email'' 0 (Some 200),
          sampleTask ''unscheduled'' ''send_email'' 0 None,
          sampleTask ''future'' ''send_email'' 0 (Some 301),
          sampleTask ''early'' ''send_email'' 0 (Some 100)]\<rparr>))) =
     [TRunning, TPending, TPending, TRunning] \<and>
   map m_taskId (JOBS_QUEUE (processScheduledTasks 300
      (emptyState\<lparr>agentTasks :=
         [sampleTask ''late'' ''send_email'' 0 (Some 200),
          sampleTask ''unscheduled'' ''send_email'' 0 None,
          sampleTask ''future'' ''send_email'' 0 (Some 301),
          sampleTask ''early'' ''send_email'' 0 (Some 100)]\<rparr>))) = [''late'', ''early'']"
proof -
  let ?st = "emptyState\<lparr>agentTasks :=
         [sampleTask ''late'' ''send_email'' 0 (Some 200),
          sampleTask ''unscheduled'' ''send_email'' 0 None,
          sampleTask ''future'' ''send_email'' 0 (Some 301),
          sampleTask ''early'' ''send_email'' 0 (Some 100)]\<rparr>"
  note s = sweep_selects_due_batch [of 300 ?st]
  note q = s [THEN conjunct2, THEN conjunct2, THEN conjunct2, THEN conjunct1]
  note ts = s [THEN conjunct2, THEN conjunct2, THEN conjunct2, THEN conjunct2]
  have sel: "selectScheduledTasks 300 ?st =
      [sampleTask ''late'' ''send_email'' 0 (Some 200),
       sampleTask ''early'' ''send_email'' 0 (Some 100)]"
    by (simp add: selectScheduledTasks_def isDue_def sampleTask_def emptyState_def)
  show ?thesis
    unfolding q ts sel
    by (simp add: sampleTask_def emptyState_def queueMessageOf_def)
qed

end
